theory Spec2Isabelle
  imports Main
begin

section \<open>Python values, exceptions and built-ins used by the server\<close>

text \<open>
  Python strings are modelled as \<^typ>\<open>string\<close>, one \<^typ>\<open>char\<close> per code point
  (code points below 256).  Every exception the source can raise is a value of
  \<open>exn\<close>; a computation that may raise returns \<open>exn + 'a\<close>, with \<open>Inl\<close> the
  exception.
\<close>

datatype exn =
    KeyError
  | IndexError
  | ValueError
  | TypeError
  | AttributeError
  | EnvironmentError
  | RPCError int string
  | OtherException string

type_synonym 'a result = "exn + 'a"

definition bind :: "'a result \<Rightarrow> ('a \<Rightarrow> 'b result) \<Rightarrow> 'b result" where
  "bind m f = (case m of Inl e \<Rightarrow> Inl e | Inr x \<Rightarrow> f x)"

text \<open>\<open>xs[i]\<close>: a negative index counts from the end, out of range raises IndexError.\<close>

definition py_index :: "'a list \<Rightarrow> int \<Rightarrow> 'a result" where
  "py_index xs i =
     (if 0 \<le> i \<and> i < int (length xs) then Inr (xs ! nat i)
      else if i < 0 \<and> - int (length xs) \<le> i then Inr (xs ! nat (int (length xs) + i))
      else Inl IndexError)"

text \<open>\<open>xs[:k]\<close> and \<open>xs[k:]\<close>: slices never raise; a negative bound counts from the end.\<close>

definition slice_bound :: "'a list \<Rightarrow> int \<Rightarrow> nat" where
  "slice_bound xs k =
     (if k < 0 then nat (max 0 (int (length xs) + k)) else min (nat k) (length xs))"

definition slice_to :: "'a list \<Rightarrow> int \<Rightarrow> 'a list" where
  "slice_to xs k = take (slice_bound xs k) xs"

definition slice_from :: "'a list \<Rightarrow> int \<Rightarrow> 'a list" where
  "slice_from xs k = drop (slice_bound xs k) xs"

text \<open>\<open>sep.join(parts)\<close> on strings.\<close>

fun join :: "string \<Rightarrow> string list \<Rightarrow> string" where
  "join sep [] = []"
| "join sep [x] = x"
| "join sep (x # y # ys) = x @ sep @ join sep (y # ys)"

text \<open>
  \<open>str.splitlines()\<close>: a line ends at \<open>\n\<close>, \<open>\r\<close>, \<open>\r\n\<close>, \<open>\v\<close>, \<open>\f\<close>,
  \<open>\x1c\<close>, \<open>\x1d\<close>, \<open>\x1e\<close> or \<open>\x85\<close>; the line ends are dropped and a final line
  end does not open an empty last line.
\<close>

definition is_linebreak :: "char \<Rightarrow> bool" where
  "is_linebreak c \<longleftrightarrow>
     c \<in> {CHR 0x0A, CHR 0x0D, CHR 0x0B, CHR 0x0C, CHR 0x1C, CHR 0x1D, CHR 0x1E, CHR 0x85}"

fun splitlines_from :: "string \<Rightarrow> string \<Rightarrow> string list" where
  "splitlines_from cur [] = (if cur = [] then [] else [rev cur])"
| "splitlines_from cur [c] =
     (if is_linebreak c then [rev cur] else [rev (c # cur)])"
| "splitlines_from cur (c # d # cs) =
     (if c = CHR 0x0D \<and> d = CHR 0x0A then rev cur # splitlines_from [] cs
      else if is_linebreak c then rev cur # splitlines_from [] (d # cs)
      else splitlines_from (c # cur) (d # cs))"

definition splitlines :: "string \<Rightarrow> string list" where
  "splitlines s = splitlines_from [] s"

text \<open>
  Character classes of Python 3 for code points below 256: \<open>str.isspace\<close> (used by
  \<open>strip\<close>, \<open>int\<close> and the pattern \<open>\s\<close>), the decimal digits (\<open>\d\<close>) and the word
  characters (\<open>\w\<close>: alphanumerics and the underscore).
\<close>

definition is_space :: "char \<Rightarrow> bool" where
  "is_space c \<longleftrightarrow>
     (let n = (of_char c :: nat)
      in (9 \<le> n \<and> n \<le> 13) \<or> (28 \<le> n \<and> n \<le> 32) \<or> n = 133 \<or> n = 160)"

definition is_digit :: "char \<Rightarrow> bool" where
  "is_digit c \<longleftrightarrow> 48 \<le> (of_char c :: nat) \<and> (of_char c :: nat) \<le> 57"

definition is_word :: "char \<Rightarrow> bool" where
  "is_word c \<longleftrightarrow>
     (let n = (of_char c :: nat)
      in (48 \<le> n \<and> n \<le> 57) \<or> (65 \<le> n \<and> n \<le> 90) \<or> n = 95 \<or> (97 \<le> n \<and> n \<le> 122)
         \<or> n = 170 \<or> n = 178 \<or> n = 179 \<or> n = 181 \<or> n = 185 \<or> n = 186
         \<or> (188 \<le> n \<and> n \<le> 190) \<or> (192 \<le> n \<and> n \<le> 214)
         \<or> (216 \<le> n \<and> n \<le> 246) \<or> (248 \<le> n \<and> n \<le> 255))"

definition digit_val :: "char \<Rightarrow> nat" where
  "digit_val c = of_char c - 48"

definition digit_char :: "nat \<Rightarrow> char" where
  "digit_char n = char_of (48 + n)"

text \<open>\<open>str(n)\<close> for an integer: decimal digits, with a minus sign when negative.\<close>

fun digits :: "nat \<Rightarrow> string" where
  "digits n = (if n < 10 then [digit_char n] else digits (n div 10) @ [digit_char (n mod 10)])"

declare digits.simps [simp del]

definition py_str :: "int \<Rightarrow> string" where
  "py_str i = (if i < 0 then CHR ''-'' # digits (nat (- i)) else digits (nat i))"

text \<open>
  \<open>int(s)\<close> in base 10: surrounding whitespace is stripped, a sign may lead, and single
  underscores may stand between digits; anything else raises ValueError.
\<close>

definition strip :: "string \<Rightarrow> string" where
  "strip s = rev (dropWhile is_space (rev (dropWhile is_space s)))"

fun digits_value :: "nat \<Rightarrow> string \<Rightarrow> nat option" where
  "digits_value acc [] = Some acc"
| "digits_value acc [c] = (if is_digit c then Some (acc * 10 + digit_val c) else None)"
| "digits_value acc (c # d # cs) =
     (if is_digit c then digits_value (acc * 10 + digit_val c) (d # cs)
      else if c = CHR ''_'' \<and> is_digit d then digits_value acc (d # cs)
      else None)"

definition number_value :: "string \<Rightarrow> nat option" where
  "number_value s =
     (case s of [] \<Rightarrow> None | c # cs \<Rightarrow> if is_digit c then digits_value 0 s else None)"

definition py_int :: "string \<Rightarrow> int result" where
  "py_int s =
     (case strip s of
        [] \<Rightarrow> Inl ValueError
      | c # cs \<Rightarrow>
          (if c = CHR ''-'' then
             (case number_value cs of None \<Rightarrow> Inl ValueError | Some n \<Rightarrow> Inr (- int n))
           else if c = CHR ''+'' then
             (case number_value cs of None \<Rightarrow> Inl ValueError | Some n \<Rightarrow> Inr (int n))
           else
             (case number_value (c # cs) of None \<Rightarrow> Inl ValueError | Some n \<Rightarrow> Inr (int n))))"

text \<open>\<open>s.split(sep)\<close> for a one-character separator: always at least one part.\<close>

fun split_from :: "char \<Rightarrow> string \<Rightarrow> string \<Rightarrow> string list" where
  "split_from sep cur [] = [rev cur]"
| "split_from sep cur (c # cs) =
     (if c = sep then rev cur # split_from sep [] cs else split_from sep (c # cur) cs)"

definition split :: "char \<Rightarrow> string \<Rightarrow> string list" where
  "split sep s = split_from sep [] s"

text \<open>\<open>xs.index(x)\<close>: the first position of \<open>x\<close>, ValueError when it is absent.\<close>

fun index_from :: "nat \<Rightarrow> 'a list \<Rightarrow> 'a \<Rightarrow> int result" where
  "index_from i [] x = Inl ValueError"
| "index_from i (y # ys) x = (if y = x then Inr (int i) else index_from (Suc i) ys x)"

definition index :: "'a list \<Rightarrow> 'a \<Rightarrow> int result" where
  "index xs x = index_from 0 xs x"

text \<open>\<open>os.path.join(a, b)\<close> on POSIX paths.\<close>

definition path_join :: "string \<Rightarrow> string \<Rightarrow> string" where
  "path_join a b =
     (if b \<noteq> [] \<and> hd b = CHR ''/'' then b
      else if a = [] \<or> last a = CHR ''/'' then a @ b
      else a @ ''/'' @ b)"

section \<open>lsp.py: positions, ranges, resource identifiers\<close>

record Uri =
  scheme :: string
  authority :: string
  path :: string
  query :: string
  fragment :: string

text \<open>\<open>Uri.__repr__\<close> / \<open>Uri.__str__\<close>; an empty query or fragment is falsy.\<close>

definition uri_str :: "Uri \<Rightarrow> string" where
  "uri_str u =
     scheme u @ ''://'' @ authority u @ path u
       @ (if query u \<noteq> [] then ''?'' @ query u else [])
       @ (if fragment u \<noteq> [] then ''#'' @ fragment u else [])"

definition uri_file :: "string \<Rightarrow> Uri" where
  "uri_file p = \<lparr>scheme = ''file'', authority = [], path = p, query = [], fragment = []\<rparr>"

text \<open>\<open>Uri.__eq__\<close> between two Uri objects compares their string forms.\<close>

definition uri_eq :: "Uri \<Rightarrow> Uri \<Rightarrow> bool" where
  "uri_eq a b \<longleftrightarrow> uri_str a = uri_str b"

record Position =
  line :: int
  character :: int

definition Position_start :: Position where
  "Position_start = \<lparr>line = 0, character = 0\<rparr>"

record Range =
  rstart :: Position
  rend :: Position

definition position_range :: "Position \<Rightarrow> Range" where
  "position_range p = \<lparr>rstart = p, rend = p\<rparr>"

section \<open>lsp.py: TextDocument\<close>

record TextDocument =
  doc_uri :: Uri
  languageId :: "string option"
  doc_version :: int
  doc_modified :: bool
  lines :: "string list"
  loaded :: bool
  virtual :: bool

definition UNKNOWN_VERSION :: int where
  "UNKNOWN_VERSION = - 1"

text \<open>\<open>TextDocument._set_text\<close> (no change callbacks are registered in this repository).\<close>

definition set_text :: "TextDocument \<Rightarrow> string \<Rightarrow> TextDocument" where
  "set_text d t = d\<lparr>lines := splitlines t, loaded := True\<rparr>"

text \<open>\<open>TextDocument.__init__\<close>: an empty text is falsy and leaves the document unloaded.\<close>

definition new_TextDocument :: "Uri \<Rightarrow> string option \<Rightarrow> string option \<Rightarrow> int option \<Rightarrow> TextDocument" where
  "new_TextDocument u txt lang ver =
     (let v = (case ver of None \<Rightarrow> UNKNOWN_VERSION | Some n \<Rightarrow> n);
          d = \<lparr>doc_uri = u, languageId = lang, doc_version = v, doc_modified = (v \<noteq> 0),
               lines = [], loaded = False, virtual = (scheme u \<noteq> ''file'')\<rparr>
      in case txt of
           None \<Rightarrow> d
         | Some t \<Rightarrow> (if t = [] then d else set_text d t))"

text \<open>\<open>TextDocument.text\<close>: the lines joined by newlines, plus a final newline.\<close>

definition text_of :: "TextDocument \<Rightarrow> string" where
  "text_of d = join [CHR 0x0A] (lines d) @ [CHR 0x0A]"

text \<open>\<open>TextDocument.offset\<close>.\<close>

definition offset :: "TextDocument \<Rightarrow> Position \<Rightarrow> int result" where
  "offset d p =
     (if line p \<ge> int (length (lines d)) then Inr (int (length (text_of d)))
      else bind (py_index (lines d) (line p)) (\<lambda>l.
        let ch = min (int (length l) + 1) (character p)
        in Inr (int (length (concat (map (\<lambda>l. l @ [CHR 0x0A]) (slice_to (lines d) (line p))))) + ch)))"

text \<open>\<open>TextDocument.pos\<close>.\<close>

definition pos :: "TextDocument \<Rightarrow> int \<Rightarrow> Position" where
  "pos d off =
     (let content = slice_to (text_of d) off;
          ls = splitlines content
      in if length ls = 0 then \<lparr>line = 0, character = 0\<rparr>
         else \<lparr>line = int (length ls) - 1, character = int (length (last ls))\<rparr>)"

text \<open>A position is in range when it names an existing line and a column on that line.\<close>

definition in_range :: "TextDocument \<Rightarrow> Position \<Rightarrow> bool" where
  "in_range d p \<longleftrightarrow>
     0 \<le> line p \<and> line p < int (length (lines d)) \<and>
     0 \<le> character p \<and> character p \<le> int (length (lines d ! nat (line p)))"

definition two_line_doc :: TextDocument where
  "two_line_doc = new_TextDocument (uri_file ''/prj.conf'') (Some ''ab\<newline>cd\<newline>'') None (Some 1)"

section \<open>lsp.py: DocumentStore\<close>

text \<open>
  The store holds the open documents by the string form of their identifier and the
  provider registered for each scheme.  A provider's \<open>get\<close> returns a document or
  \<open>None\<close>.  The file system is a parameter: reading a path gives its text, raises
  EnvironmentError when the file cannot be opened, or raises something else (a decoding
  error is a ValueError).
\<close>

record DocumentStore =
  docs :: "string \<rightharpoonup> TextDocument"
  providers :: "string \<rightharpoonup> (Uri \<Rightarrow> TextDocument option)"

type_synonym filesystem = "string \<Rightarrow> string result"

text \<open>\<open>DocumentStore._from_disk\<close>.\<close>

definition from_disk ::
  "DocumentStore \<Rightarrow> filesystem \<Rightarrow> Uri \<Rightarrow> (TextDocument option \<times> DocumentStore) result" where
  "from_disk st fs u =
     (case fs (path u) of
        Inl e \<Rightarrow> Inl e
      | Inr t \<Rightarrow>
          (let doc = new_TextDocument u (Some t) None None
           in Inr (Some doc, st\<lparr>docs := (docs st)(uri_str u \<mapsto> doc)\<rparr>)))"

text \<open>\<open>DocumentStore.get\<close>: only EnvironmentError is caught around the disk read.\<close>

definition DocumentStore_get ::
  "DocumentStore \<Rightarrow> filesystem \<Rightarrow> Uri \<Rightarrow> bool \<Rightarrow> (TextDocument option \<times> DocumentStore) result" where
  "DocumentStore_get st fs u create =
     (case providers st (scheme u) of
        Some p \<Rightarrow> Inr (p u, st)
      | None \<Rightarrow>
          (case docs st (uri_str u) of
             Some d \<Rightarrow> Inr (Some d, st)
           | None \<Rightarrow>
               (if create then
                  (case from_disk st fs u of
                     Inl e \<Rightarrow> (if e = EnvironmentError then Inr (None, st) else Inl e)
                   | Inr r \<Rightarrow> Inr r)
                else Inr (None, st))))"

definition menu_uri :: Uri where
  "menu_uri = \<lparr>scheme = ''kconfig'', authority = ''build'', path = ''/menu'', query = [], fragment = []\<rparr>"

definition menu_doc :: TextDocument where
  "menu_doc = new_TextDocument menu_uri (Some ''CONFIG_A=y'') None (Some 1)"

definition no_files :: filesystem where
  "no_files p = Inl EnvironmentError"

definition one_file :: filesystem where
  "one_file p = (if p = ''/prj.conf'' then Inr ''CONFIG_A=y\<newline>'' else Inl EnvironmentError)"

definition empty_store :: DocumentStore where
  "empty_store = \<lparr>docs = Map.empty, providers = Map.empty\<rparr>"

text \<open>A store that holds a buffer for \<open>menu_uri\<close> and a provider for its scheme that
  knows no document (what \<open>DocProvider.get\<close> of the base class returns).\<close>

definition provider_store :: DocumentStore where
  "provider_store =
     \<lparr>docs = [uri_str menu_uri \<mapsto> menu_doc], providers = [''kconfig'' \<mapsto> (\<lambda>u. None)]\<rparr>"

definition cached_store :: DocumentStore where
  "cached_store = \<lparr>docs = [uri_str menu_uri \<mapsto> menu_doc], providers = Map.empty\<rparr>"

section \<open>lsp.py: diagnostics and code actions\<close>

record Location =
  loc_uri :: Uri
  loc_range :: Range

record TextEdit =
  edit_range :: Range
  newText :: string

definition TextEdit_remove :: "Range \<Rightarrow> TextEdit" where
  "TextEdit_remove r = \<lparr>edit_range = r, newText = []\<rparr>"

text \<open>\<open>WorkspaceEdit.changes\<close>: the edits grouped by the string form of the identifier,
  in insertion order; \<open>WorkspaceEdit.add\<close>.\<close>

type_synonym WorkspaceEdit = "(string \<times> TextEdit list) list"

fun changes_add :: "WorkspaceEdit \<Rightarrow> string \<Rightarrow> TextEdit \<Rightarrow> WorkspaceEdit" where
  "changes_add [] k e = [(k, [e])]"
| "changes_add ((k', es) # r) k e =
     (if k' = k then (k', es @ [e]) # r else (k', es) # changes_add r k e)"

definition edit_add :: "WorkspaceEdit \<Rightarrow> Uri \<Rightarrow> TextEdit \<Rightarrow> WorkspaceEdit" where
  "edit_add w u e = changes_add w (uri_str u) e"

text \<open>A code action: its title and its edit (the kind is always \<open>quickfix\<close>; the list of
  diagnostics an action belongs to is a back reference and is left out).\<close>

record CodeAction =
  title :: string
  edit :: WorkspaceEdit

definition new_CodeAction :: "string \<Rightarrow> CodeAction" where
  "new_CodeAction t = \<lparr>title = t, edit = []\<rparr>"

definition ERROR :: nat where "ERROR = 1"
definition WARNING :: nat where "WARNING = 2"
definition INFORMATION :: nat where "INFORMATION = 3"
definition HINT :: nat where "HINT = 4"
definition UNNECESSARY :: nat where "UNNECESSARY = 1"

record Diagnostic =
  message :: string
  diag_range :: Range
  severity :: nat
  tags :: "nat list"
  related_info :: "(Location \<times> string) list"
  actions :: "CodeAction list"

definition new_Diagnostic :: "string \<Rightarrow> Range \<Rightarrow> nat \<Rightarrow> Diagnostic" where
  "new_Diagnostic m r s =
     \<lparr>message = m, diag_range = r, severity = s, tags = [], related_info = [], actions = []\<rparr>"

definition Diagnostic_err :: "string \<Rightarrow> Range \<Rightarrow> Diagnostic" where
  "Diagnostic_err m r = new_Diagnostic m r ERROR"

definition Diagnostic_warn :: "string \<Rightarrow> Range \<Rightarrow> Diagnostic" where
  "Diagnostic_warn m r = new_Diagnostic m r WARNING"

definition Diagnostic_hint :: "string \<Rightarrow> Range \<Rightarrow> Diagnostic" where
  "Diagnostic_hint m r = new_Diagnostic m r HINT"

definition add_action :: "Diagnostic \<Rightarrow> CodeAction \<Rightarrow> Diagnostic" where
  "add_action d a = d\<lparr>actions := actions d @ [a]\<rparr>"

definition mark_unnecessary :: "Diagnostic \<Rightarrow> Diagnostic" where
  "mark_unnecessary d = d\<lparr>tags := tags d @ [UNNECESSARY]\<rparr>"

section \<open>The evaluation engine's data, as the server reads it\<close>

text \<open>
  The configuration engine (kconfiglib) is an external collaborator.  Its objects are
  modelled by the attributes the server reads.  Menu nodes are objects compared by
  identity: a node is a reference (a number) into the \<open>heap\<close> of the evaluation.
  A dependency expression is a symbol, a conjunction, or any other expression, which
  carries its printed form and its tristate value.
\<close>

text \<open>The symbol types of the engine (its \<open>INT\<close> is written \<open>INTEGER\<close> here).\<close>

datatype ktype = UNKNOWN | BOOL | TRISTATE | STRING | INTEGER | HEX

definition TYPE_TO_STR :: "ktype \<Rightarrow> string" where
  "TYPE_TO_STR t =
     (case t of UNKNOWN \<Rightarrow> ''unknown'' | BOOL \<Rightarrow> ''bool'' | TRISTATE \<Rightarrow> ''tristate''
      | STRING \<Rightarrow> ''string'' | INTEGER \<Rightarrow> ''int'' | HEX \<Rightarrow> ''hex'')"

text \<open>\<open>Symbol.user_value\<close>: None, 0/1/2 for bool and tristate symbols, a string otherwise.\<close>

datatype uval = UNone | UTri nat | UStr string

record DepSymbol =
  dep_name :: string
  dep_type :: ktype
  dep_tri :: nat

datatype expr = SymExpr DepSymbol | AndExpr expr expr | OtherExpr string nat

fun split_and :: "expr \<Rightarrow> expr list" where
  "split_and (AndExpr a b) = split_and a @ split_and b"
| "split_and e = [e]"

fun expr_value :: "expr \<Rightarrow> nat" where
  "expr_value (SymExpr s) = dep_tri s"
| "expr_value (AndExpr a b) = min (expr_value a) (expr_value b)"
| "expr_value (OtherExpr s v) = v"

fun expr_str :: "expr \<Rightarrow> string" where
  "expr_str (SymExpr s) = dep_name s"
| "expr_str (AndExpr a b) = expr_str a @ '' && '' @ expr_str b"
| "expr_str (OtherExpr s v) = s"

record Symbol =
  sym_name :: string
  sym_type :: ktype
  orig_type :: ktype
  user_value :: uval
  str_value :: string
  tri_value :: nat
  visibility :: nat
  direct_dep :: expr
  nodes :: "nat list"
  str_default :: string

datatype item = MENU | COMMENT | SymbolItem Symbol | ChoiceItem | NoItem

record MenuNode =
  item :: item
  prompt :: "string option"
  node_filename :: string
  node_linenr :: int

section \<open>kconfiglsp.py: the Kconfig wrapper\<close>

definition ID_SEP :: char where
  "ID_SEP = CHR ''@''"

definition UNKNOWN_NODE :: int where "UNKNOWN_NODE = 1"
definition DESYNC :: int where "DESYNC = 2"
definition PARSING_FAILED :: int where "PARSING_FAILED = 3"

text \<open>
  The wrapper object: \<open>filename\<close>, \<open>linenr\<close> and \<open>srctree\<close> are the engine's current
  parsing location, \<open>valid\<close> and \<open>kc_diags\<close> belong to the wrapper, the rest is the
  symbol graph.
\<close>

record Kconfig =
  filename :: string
  linenr :: "int option"
  srctree :: string
  valid :: bool
  kc_diags :: "(string \<times> Diagnostic list) list"
  syms :: "string \<rightharpoonup> Symbol"
  unique_defined_syms :: "string list"
  menus :: "nat list"
  choices :: "nat list"
  comments :: "nat list"
  top_node :: nat
  heap :: "nat \<Rightarrow> MenuNode"

text \<open>\<open>Kconfig.__init__\<close>: nothing of the graph exists before the engine has run.\<close>

definition new_Kconfig :: "string \<Rightarrow> Kconfig" where
  "new_Kconfig f =
     \<lparr>filename = f, linenr = None, srctree = [], valid = False, kc_diags = [],
      syms = Map.empty, unique_defined_syms = [], menus = [], choices = [], comments = [],
      top_node = 0, heap = (\<lambda>r. \<lparr>item = NoItem, prompt = None, node_filename = [], node_linenr = 0\<rparr>)\<rparr>"

text \<open>
  One run of the engine's \<open>_init\<close> on the wrapper object: it returns normally or raises
  \<open>KconfigError\<close> or another exception (each with the text \<open>str(e)\<close>), and leaves the
  object in some state.  The engine does not assign the wrapper's \<open>valid\<close> attribute.
\<close>

datatype engine_exn = KconfigError string | EngineException string

type_synonym engine = "Kconfig \<Rightarrow> engine_exn option \<times> Kconfig"

definition engine_init :: "engine \<Rightarrow> Kconfig \<Rightarrow> engine_exn option \<times> Kconfig" where
  "engine_init run k = (case run k of (e, k') \<Rightarrow> (e, k'\<lparr>valid := valid k\<rparr>))"

text \<open>\<open>Kconfig.parse\<close>.\<close>

definition Kconfig_parse :: "engine \<Rightarrow> Kconfig \<Rightarrow> engine_exn option \<times> Kconfig" where
  "Kconfig_parse run k =
     (case engine_init run (k\<lparr>valid := False\<rparr>) of
        (Some e, k') \<Rightarrow> (Some e, k')
      | (None, k') \<Rightarrow>
          (None, if unique_defined_syms k' \<noteq> [] then k'\<lparr>valid := True\<rparr> else k'))"

text \<open>\<open>Kconfig.loc\<close>: an empty file name is falsy.\<close>

definition Kconfig_loc :: "Kconfig \<Rightarrow> Location option" where
  "Kconfig_loc k =
     (case linenr k of
        None \<Rightarrow> None
      | Some n \<Rightarrow>
          (if filename k = [] then None
           else Some \<lparr>loc_uri = uri_file (path_join (srctree k) (filename k)),
                      loc_range = \<lparr>rstart = \<lparr>line = n - 1, character = 0\<rparr>,
                                   rend = \<lparr>line = n - 1, character = 99999\<rparr>\<rparr>\<rparr>))"

section \<open>kconfiglsp.py: ConfEntry and ConfFile\<close>

text \<open>A Python value an entry can stand for: None, a string or an integer.\<close>

datatype pyval = PNone | PStr string | PInt int

text \<open>\<open>int(s, 16)\<close>: as \<open>int(s)\<close>, with hexadecimal digits and an optional \<open>0x\<close> prefix,
  after which one underscore may stand.\<close>

definition is_hexdigit :: "char \<Rightarrow> bool" where
  "is_hexdigit c \<longleftrightarrow>
     (let n = (of_char c :: nat)
      in (48 \<le> n \<and> n \<le> 57) \<or> (65 \<le> n \<and> n \<le> 70) \<or> (97 \<le> n \<and> n \<le> 102))"

definition hex_val :: "char \<Rightarrow> nat" where
  "hex_val c =
     (let n = (of_char c :: nat)
      in if n \<le> 57 then n - 48 else if n \<le> 70 then n - 55 else n - 87)"

fun hexdigits_value :: "nat \<Rightarrow> string \<Rightarrow> nat option" where
  "hexdigits_value acc [] = Some acc"
| "hexdigits_value acc [c] = (if is_hexdigit c then Some (acc * 16 + hex_val c) else None)"
| "hexdigits_value acc (c # d # cs) =
     (if is_hexdigit c then hexdigits_value (acc * 16 + hex_val c) (d # cs)
      else if c = CHR ''_'' \<and> is_hexdigit d then hexdigits_value acc (d # cs)
      else None)"

definition hex_number_value :: "string \<Rightarrow> nat option" where
  "hex_number_value s =
     (let t = (if take 2 s = ''0x'' \<or> take 2 s = ''0X''
               then (if take 1 (drop 2 s) = ''_'' then drop 3 s else drop 2 s)
               else s)
      in case t of [] \<Rightarrow> None | c # cs \<Rightarrow> if is_hexdigit c then hexdigits_value 0 t else None)"

definition py_int16 :: "string \<Rightarrow> int result" where
  "py_int16 s =
     (case strip s of
        [] \<Rightarrow> Inl ValueError
      | c # cs \<Rightarrow>
          (if c = CHR ''-'' then
             (case hex_number_value cs of None \<Rightarrow> Inl ValueError | Some n \<Rightarrow> Inr (- int n))
           else if c = CHR ''+'' then
             (case hex_number_value cs of None \<Rightarrow> Inl ValueError | Some n \<Rightarrow> Inr (int n))
           else
             (case hex_number_value (c # cs) of None \<Rightarrow> Inl ValueError | Some n \<Rightarrow> Inr (int n))))"

text \<open>\<open>hex(n)\<close>.\<close>

definition hexdigit_char :: "nat \<Rightarrow> char" where
  "hexdigit_char n = (if n < 10 then char_of (48 + n) else char_of (87 + n))"

fun hexdigits :: "nat \<Rightarrow> string" where
  "hexdigits n =
     (if n < 16 then [hexdigit_char n] else hexdigits (n div 16) @ [hexdigit_char (n mod 16)])"

declare hexdigits.simps [simp del]

definition py_hex :: "int \<Rightarrow> string" where
  "py_hex i = (if i < 0 then ''-0x'' @ hexdigits (nat (- i)) else ''0x'' @ hexdigits (nat i))"

text \<open>How an f-string prints a value.\<close>

definition format_value :: "pyval \<Rightarrow> string" where
  "format_value v = (case v of PNone \<Rightarrow> ''None'' | PStr s \<Rightarrow> s | PInt i \<Rightarrow> py_str i)"

text \<open>
  An entry of a configuration file.  Its \<open>loc\<close> is a Location object; \<open>Location\<close>
  defines no \<open>__eq__\<close>, so two locations are equal only when they are the same object:
  \<open>loc_ref\<close> is the identity of the entry's Location object.
\<close>

record ConfEntry =
  name :: string
  loc :: Location
  loc_ref :: nat
  raw :: string
  value_range :: Range

text \<open>\<open>ConfEntry.__init__\<close> strips the assigned text.\<close>

definition new_ConfEntry :: "string \<Rightarrow> Location \<Rightarrow> nat \<Rightarrow> string \<Rightarrow> Range \<Rightarrow> ConfEntry" where
  "new_ConfEntry n l r a vr = \<lparr>name = n, loc = l, loc_ref = r, raw = strip a, value_range = vr\<rparr>"

definition entry_range :: "ConfEntry \<Rightarrow> Range" where
  "entry_range e = loc_range (loc e)"

text \<open>\<open>ConfEntry.__eq__\<close> (and the \<open>!=\<close> Python derives from it).\<close>

definition entry_eq :: "ConfEntry \<Rightarrow> ConfEntry \<Rightarrow> bool" where
  "entry_eq a b \<longleftrightarrow> loc_ref a = loc_ref b"

definition full_range :: "ConfEntry \<Rightarrow> Range" where
  "full_range e = \<lparr>rstart = rstart (entry_range e), rend = rend (value_range e)\<rparr>"

definition is_string :: "ConfEntry \<Rightarrow> bool" where
  "is_string e \<longleftrightarrow> raw e \<noteq> [] \<and> hd (raw e) = CHR 0x22 \<and> last (raw e) = CHR 0x22"

definition is_bool :: "ConfEntry \<Rightarrow> bool" where
  "is_bool e \<longleftrightarrow> raw e = ''y'' \<or> raw e = ''n''"

text \<open>\<open>re.match(r'0x[a-fA-F\d]+', raw)\<close> and \<open>re.match(r'\d+', raw)\<close>: a match of a prefix.\<close>

definition is_hex :: "ConfEntry \<Rightarrow> bool" where
  "is_hex e \<longleftrightarrow> take 2 (raw e) = ''0x'' \<and> drop 2 (raw e) \<noteq> [] \<and> is_hexdigit (hd (drop 2 (raw e)))"

definition is_int :: "ConfEntry \<Rightarrow> bool" where
  "is_int e \<longleftrightarrow> raw e \<noteq> [] \<and> is_digit (hd (raw e))"

text \<open>\<open>ConfEntry.value\<close>; \<open>raw[1:-1]\<close> drops the first and the last character.\<close>

definition entry_value :: "ConfEntry \<Rightarrow> pyval result" where
  "entry_value e =
     (if is_string e then Inr (PStr (butlast (tl (raw e))))
      else if is_bool e then Inr (PStr (raw e))
      else if is_hex e then bind (py_int16 (raw e)) (\<lambda>i. Inr (PInt i))
      else if is_int e then bind (py_int (raw e)) (\<lambda>i. Inr (PInt i))
      else Inr PNone)"

text \<open>\<open>ConfEntry.type\<close>.\<close>

definition entry_type :: "ConfEntry \<Rightarrow> string" where
  "entry_type e =
     (if is_string e then TYPE_TO_STR STRING
      else if is_hex e then TYPE_TO_STR HEX
      else if is_int e then TYPE_TO_STR INTEGER
      else if is_bool e then TYPE_TO_STR BOOL
      else TYPE_TO_STR UNKNOWN)"

definition line_range :: "ConfEntry \<Rightarrow> Range" where
  "line_range e =
     \<lparr>rstart = \<lparr>line = line (rstart (entry_range e)), character = 0\<rparr>,
      rend = \<lparr>line = line (rstart (entry_range e)) + 1, character = 0\<rparr>\<rparr>"

text \<open>\<open>ConfEntry.remove\<close>.\<close>

definition entry_remove :: "ConfEntry \<Rightarrow> string \<Rightarrow> CodeAction" where
  "entry_remove e t =
     (new_CodeAction t)\<lparr>edit := edit_add [] (loc_uri (loc e)) (TextEdit_remove (line_range e))\<rparr>"

text \<open>
  The pattern of \<open>ConfFile.entries\<close>, \<open>^\s*(CONFIG_(\w+))\s*\=("[^"]+"|\w+)\<close>, matched at
  the start of a line: the result is the start and end of group 1, group 2, and the
  start, end and text of group 3.
\<close>

definition match_quoted :: "string \<Rightarrow> string option" where
  "match_quoted r =
     (case r of
        [] \<Rightarrow> None
      | c # t \<Rightarrow>
          (if c = CHR 0x22 \<and> takeWhile (\<lambda>x. x \<noteq> CHR 0x22) t \<noteq> []
               \<and> dropWhile (\<lambda>x. x \<noteq> CHR 0x22) t \<noteq> []
           then Some (c # takeWhile (\<lambda>x. x \<noteq> CHR 0x22) t @ [CHR 0x22])
           else None))"

definition match_entry :: "string \<Rightarrow> (nat \<times> nat \<times> string \<times> nat \<times> nat \<times> string) option" where
  "match_entry l =
     (let s1 = length (takeWhile is_space l);
          r1 = dropWhile is_space l
      in if take 7 r1 \<noteq> ''CONFIG_'' then None
         else
           (let nm = takeWhile is_word (drop 7 r1);
                e1 = s1 + 7 + length nm;
                r3 = dropWhile is_word (drop 7 r1);
                s3 = e1 + length (takeWhile is_space r3) + 1
            in if nm = [] then None
               else
                 (case dropWhile is_space r3 of
                    [] \<Rightarrow> None
                  | c # r5 \<Rightarrow>
                      (if c \<noteq> CHR ''='' then None
                       else
                         (case match_quoted r5 of
                            Some q \<Rightarrow> Some (s1, e1, nm, s3, s3 + length q, q)
                          | None \<Rightarrow>
                              (if takeWhile is_word r5 = [] then None
                               else Some (s1, e1, nm, s3, s3 + length (takeWhile is_word r5),
                                          takeWhile is_word r5)))))))"

record ConfFile =
  file_uri :: Uri
  file_diags :: "Diagnostic list"

definition new_ConfFile :: "Uri \<Rightarrow> ConfFile" where
  "new_ConfFile u = \<lparr>file_uri = u, file_diags = []\<rparr>"

text \<open>
  The process-wide state the session reads: the document store, the file system behind
  it, and the number of the next object to be created (each Location created gets a
  fresh identity).
\<close>

record World =
  store :: DocumentStore
  disk :: filesystem
  next_ref :: nat

text \<open>The loop of \<open>ConfFile.entries\<close> over the numbered lines.\<close>

fun entries_of_lines :: "Uri \<Rightarrow> int \<Rightarrow> nat \<Rightarrow> string list \<Rightarrow> ConfEntry list \<times> nat" where
  "entries_of_lines u n r [] = ([], r)"
| "entries_of_lines u n r (l # ls) =
     (case match_entry l of
        None \<Rightarrow> entries_of_lines u (n + 1) r ls
      | Some (s1, e1, nm, s3, e3, v) \<Rightarrow>
          (case entries_of_lines u (n + 1) (Suc r) ls of
             (es, r') \<Rightarrow>
               (new_ConfEntry nm
                  \<lparr>loc_uri = u,
                   loc_range = \<lparr>rstart = \<lparr>line = n, character = int s1\<rparr>,
                                rend = \<lparr>line = n, character = int e1\<rparr>\<rparr>\<rparr>
                  r v
                  \<lparr>rstart = \<lparr>line = n, character = int s3\<rparr>,
                   rend = \<lparr>line = n, character = int e3\<rparr>\<rparr> # es, r')))"

text \<open>\<open>ConfFile.doc\<close> asks the document store (which may read and cache the file);
  \<open>ConfFile.entries\<close> raises AttributeError when there is no document.\<close>

definition entries :: "World \<Rightarrow> ConfFile \<Rightarrow> (ConfEntry list \<times> World) result" where
  "entries w f =
     bind (DocumentStore_get (store w) (disk w) (file_uri f) True) (\<lambda>(d, st).
       case d of
         None \<Rightarrow> Inl AttributeError
       | Some doc \<Rightarrow>
           (case entries_of_lines (file_uri f) 0 (next_ref w) (lines doc) of
              (es, r) \<Rightarrow> Inr (es, w\<lparr>store := st, next_ref := r\<rparr>)))"

record BoardConf =
  board_name :: string
  arch :: string
  dir :: string

text \<open>\<open>BoardConf.conf_file\<close>: a new ConfFile object at every access.\<close>

definition board_conf_file :: "BoardConf \<Rightarrow> ConfFile" where
  "board_conf_file b = new_ConfFile (uri_file (path_join (dir b) (board_name b @ ''_defconfig'')))"

section \<open>kconfiglsp.py: KconfigContext\<close>

text \<open>
  A session.  \<open>kconfig\<close> is None until the first parse; \<open>modified\<close> is an attribute
  that \<open>parse\<close> creates, as an empty dict (its keys are kept here).
\<close>

record KconfigContext =
  ctx_uri :: Uri
  env :: "string \<rightharpoonup> string"
  conf_files :: "ConfFile list"
  board :: BoardConf
  version :: int
  root :: string
  kconfig :: "Kconfig option"
  menu :: "string option"
  cmd_diags :: "Diagnostic list"
  kconfig_diags :: "(string \<times> Diagnostic list) list"
  modified :: "string list option"

text \<open>\<open>KconfigContext.__init__\<close>: the three board variables must be in the environment.\<close>

definition new_KconfigContext ::
  "Uri \<Rightarrow> string \<Rightarrow> ConfFile list \<Rightarrow> (string \<rightharpoonup> string) \<Rightarrow> KconfigContext result" where
  "new_KconfigContext u r fs e =
     (case (e ''BOARD'', e ''ARCH'', e ''BOARD_DIR'') of
        (Some b, Some a, Some d) \<Rightarrow>
          Inr \<lparr>ctx_uri = u, env = e, conf_files = fs,
               board = \<lparr>board_name = b, arch = a, dir = d\<rparr>, version = 0, root = r,
               kconfig = None, menu = None, cmd_diags = [], kconfig_diags = [], modified = None\<rparr>
      | _ \<Rightarrow> Inl KeyError)"

text \<open>\<open>KconfigContext.initialize_env\<close>: the variables are handed to the process
  environment, which only the engine reads; \<open>ZEPHYR_BASE\<close> must be among them.\<close>

definition initialize_env :: "KconfigContext \<Rightarrow> unit result" where
  "initialize_env c = (case env c ''ZEPHYR_BASE'' of None \<Rightarrow> Inl KeyError | Some z \<Rightarrow> Inr ())"

text \<open>\<open>KconfigContext.clear_diags\<close>.\<close>

definition clear_diags :: "KconfigContext \<Rightarrow> KconfigContext" where
  "clear_diags c =
     c\<lparr>kconfig := map_option (\<lambda>k. k\<lparr>kc_diags := []\<rparr>) (kconfig c),
       kconfig_diags := [],
       cmd_diags := [],
       conf_files := map (\<lambda>f. f\<lparr>file_diags := []\<rparr>) (conf_files c)\<rparr>"

text \<open>\<open>KconfigContext.kconfig_diag\<close>: a dict from identifier strings to lists.\<close>

fun dict_append :: "(string \<times> 'a list) list \<Rightarrow> string \<Rightarrow> 'a \<Rightarrow> (string \<times> 'a list) list" where
  "dict_append [] k x = [(k, [x])]"
| "dict_append ((k', xs) # r) k x =
     (if k' = k then (k', xs @ [x]) # r else (k', xs) # dict_append r k x)"

definition kconfig_diag :: "KconfigContext \<Rightarrow> Uri \<Rightarrow> Diagnostic \<Rightarrow> KconfigContext" where
  "kconfig_diag c u d = c\<lparr>kconfig_diags := dict_append (kconfig_diags c) (uri_str u) d\<rparr>"

text \<open>\<open>KconfigContext.valid\<close>.\<close>

definition ctx_valid :: "KconfigContext \<Rightarrow> bool" where
  "ctx_valid c = (case kconfig c of None \<Rightarrow> False | Some k \<Rightarrow> valid k)"

text \<open>\<open>KconfigContext.invalidate\<close>.\<close>

definition invalidate :: "KconfigContext \<Rightarrow> KconfigContext" where
  "invalidate c = c\<lparr>kconfig := map_option (\<lambda>k. k\<lparr>valid := False\<rparr>) (kconfig c)\<rparr>"

text \<open>
  The message of a parse error: group 3 of the match of
  \<open>(^[\w\/\\-]+:\d+:\s*)?(error:)?\s*(.*)\<close> on \<open>str(e)\<close>.  Every group is optional, so
  the pattern matches every string and the branch for no match is never taken.
\<close>

definition is_path_char :: "char \<Rightarrow> bool" where
  "is_path_char c \<longleftrightarrow> is_word c \<or> c = CHR ''/'' \<or> c = CHR 0x5C \<or> c = CHR ''-''"

definition skip_location :: "string \<Rightarrow> string" where
  "skip_location s =
     (case dropWhile is_path_char s of
        [] \<Rightarrow> s
      | c # r \<Rightarrow>
          (if takeWhile is_path_char s = [] \<or> c \<noteq> CHR '':'' \<or> takeWhile is_digit r = [] then s
           else
             (case dropWhile is_digit r of
                [] \<Rightarrow> s
              | d # r' \<Rightarrow> if d = CHR '':'' then dropWhile is_space r' else s)))"

definition error_message :: "string \<Rightarrow> string" where
  "error_message s =
     (let s1 = skip_location s;
          s2 = (if take 6 s1 = ''error:'' then drop 6 s1 else s1)
      in takeWhile (\<lambda>c. c \<noteq> CHR 0x0A) (dropWhile is_space s2))"

text \<open>\<open>KconfigContext.parse\<close>, with the engine's run as a parameter.\<close>

definition parse :: "engine \<Rightarrow> KconfigContext \<Rightarrow> KconfigContext result" where
  "parse run c =
     (let c1 = clear_diags (c\<lparr>menu := None, modified := Some []\<rparr>)
      in bind (initialize_env c1) (\<lambda>_.
           case Kconfig_parse run (new_Kconfig (root c1)) of
             (e, k) \<Rightarrow>
               (let c2 = c1\<lparr>kconfig := Some k\<rparr>;
                    origin = \<lparr>rstart = Position_start, rend = Position_start\<rparr>;
                    c3 = (case e of
                            None \<Rightarrow> c2
                          | Some (KconfigError m) \<Rightarrow>
                              (case Kconfig_loc k of
                                 Some l \<Rightarrow>
                                   kconfig_diag c2 (loc_uri l) (Diagnostic_err (error_message m) (loc_range l))
                               | None \<Rightarrow>
                                   c2\<lparr>cmd_diags := cmd_diags c2 @ [Diagnostic_err (error_message m) origin]\<rparr>)
                          | Some (EngineException m) \<Rightarrow>
                              c2\<lparr>cmd_diags := cmd_diags c2 @ [Diagnostic_err (''Kconfig failed: '' @ m) origin]\<rparr>)
                in Inr (c3\<lparr>version := version c3 + 1\<rparr>))))"

text \<open>
  \<open>KconfigContext._node_id\<close>.  The parts of an identifier are Python values: the
  ordinals of a choice and of a comment, and the line number of an unknown node, are
  put in as integers, and \<open>join\<close> raises TypeError on a part that is not a string.
\<close>

definition join_values :: "string \<Rightarrow> pyval list \<Rightarrow> string result" where
  "join_values sep vs =
     (if list_all (\<lambda>v. case v of PStr s \<Rightarrow> True | _ \<Rightarrow> False) vs
      then Inr (join sep (map (\<lambda>v. case v of PStr s \<Rightarrow> s | _ \<Rightarrow> []) vs))
      else Inl TypeError)"

definition node_parts :: "Kconfig \<Rightarrow> nat \<Rightarrow> pyval list result" where
  "node_parts k node =
     (if node = top_node k then Inr [PStr ''MAINMENU'']
      else
        (case item (heap k node) of
           MENU \<Rightarrow> bind (index (menus k) node) (\<lambda>i. Inr [PStr ''MENU'', PStr (py_str i)])
         | SymbolItem sy \<Rightarrow>
             bind (index (nodes sy) node) (\<lambda>i. Inr [PStr ''SYM'', PStr (sym_name sy), PStr (py_str i)])
         | ChoiceItem \<Rightarrow> bind (index (choices k) node) (\<lambda>i. Inr [PStr ''CHOICE'', PInt i])
         | COMMENT \<Rightarrow> bind (index (comments k) node) (\<lambda>i. Inr [PStr ''COMMENT'', PInt i])
         | NoItem \<Rightarrow>
             Inr [PStr ''UNKNOWN'', PStr (node_filename (heap k node)), PInt (node_linenr (heap k node))]))"

definition node_id :: "KconfigContext \<Rightarrow> nat \<Rightarrow> string result" where
  "node_id c node =
     (case kconfig c of
        None \<Rightarrow> Inr []
      | Some k \<Rightarrow>
          bind (node_parts k node) (\<lambda>parts.
            join_values [ID_SEP] (PStr (py_str (version c)) # parts)))"

text \<open>
  \<open>KconfigContext.find_node\<close>.  The identifier is split at the separator and unpacked
  into the version, the kind and the remaining parts (ValueError with fewer than two
  parts).  The result is a node reference or None.
\<close>

definition the_kconfig :: "KconfigContext \<Rightarrow> Kconfig result" where
  "the_kconfig c = (case kconfig c of None \<Rightarrow> Inl AttributeError | Some k \<Rightarrow> Inr k)"

definition lookup_sym :: "Kconfig \<Rightarrow> string \<Rightarrow> Symbol result" where
  "lookup_sym k n = (case syms k n of None \<Rightarrow> Inl KeyError | Some s \<Rightarrow> Inr s)"

definition find_kind :: "KconfigContext \<Rightarrow> string \<Rightarrow> string list \<Rightarrow> nat option result" where
  "find_kind c kind parts =
     (if kind = ''MENU'' then
        bind (the_kconfig c) (\<lambda>k. bind (py_index parts 0) (\<lambda>p. bind (py_int p) (\<lambda>i.
          bind (py_index (menus k) i) (\<lambda>n. Inr (Some n)))))
      else if kind = ''SYM'' then
        bind (the_kconfig c) (\<lambda>k. bind (py_index parts 0) (\<lambda>p. bind (lookup_sym k p) (\<lambda>sy.
          bind (py_index parts 1) (\<lambda>q. bind (py_int q) (\<lambda>i.
            bind (py_index (nodes sy) i) (\<lambda>n. Inr (Some n)))))))
      else if kind = ''CHOICE'' then
        bind (the_kconfig c) (\<lambda>k. bind (py_index parts 0) (\<lambda>p. bind (py_int p) (\<lambda>i.
          bind (py_index (choices k) i) (\<lambda>n. Inr (Some n)))))
      else if kind = ''COMMENT'' then
        bind (the_kconfig c) (\<lambda>k. bind (py_index parts 0) (\<lambda>p. bind (py_int p) (\<lambda>i.
          bind (py_index (comments k) i) (\<lambda>n. Inr (Some n)))))
      else if kind = ''MAINMENU'' then
        bind (the_kconfig c) (\<lambda>k. Inr (Some (top_node k)))
      else Inr None)"

definition find_node :: "KconfigContext \<Rightarrow> string \<Rightarrow> nat option result" where
  "find_node c ident =
     (case split ID_SEP ident of
        v # kind # parts \<Rightarrow>
          bind (py_int v) (\<lambda>n.
            if n \<noteq> version c then Inr None
            else find_kind c kind parts)
      | _ \<Rightarrow> Inl ValueError)"

text \<open>
  \<open>KconfigContext.get_menu\<close>.  An absent or empty identifier stands for the current
  menu.  \<open>KconfigMenu\<close> takes a context, a node and an identifier; the call here passes
  two arguments, which raises TypeError, so no menu object is ever returned.
\<close>

record KconfigMenu =
  menu_node :: nat
  menu_id :: string

definition get_menu :: "KconfigContext \<Rightarrow> string option \<Rightarrow> KconfigMenu option result" where
  "get_menu c ident =
     (let i = (if ident = None \<or> ident = Some [] then menu c else ident)
      in if i = None \<or> i = Some [] then Inr None
         else bind (find_node c (the i)) (\<lambda>node.
           case node of None \<Rightarrow> Inr None | Some n \<Rightarrow> Inl TypeError))"

text \<open>A failure is a Desync failure when it is an RPCError with the code \<open>DESYNC\<close>.\<close>

definition is_desync :: "'a result \<Rightarrow> bool" where
  "is_desync r = (case r of Inl (RPCError code msg) \<Rightarrow> code = DESYNC | _ \<Rightarrow> False)"

section \<open>kconfiglsp.py: the checks of a configuration entry\<close>

text \<open>
  Each check appends a diagnostic to the file and returns True, or returns None and
  leaves the file alone: the result is the flag and the file.  \<open>_missing_deps\<close>
  keeps the conjuncts of the direct dependencies whose value is 0.
\<close>

definition missing_deps :: "Symbol \<Rightarrow> expr list" where
  "missing_deps s = filter (\<lambda>d. expr_value d = 0) (split_and (direct_dep s))"

definition TRI_TO_STR :: "nat \<Rightarrow> string option" where
  "TRI_TO_STR n = (if n = 0 then Some ''n'' else if n = 1 then Some ''m'' else if n = 2 then Some ''y'' else None)"

definition append_diag :: "ConfFile \<Rightarrow> Diagnostic \<Rightarrow> ConfFile" where
  "append_diag f d = f\<lparr>file_diags := file_diags f @ [d]\<rparr>"

text \<open>\<open>check_undefined\<close>.\<close>

definition check_undefined :: "ConfFile \<Rightarrow> ConfEntry \<Rightarrow> Symbol \<Rightarrow> (bool \<times> ConfFile) result" where
  "check_undefined f e s =
     (if sym_type s = UNKNOWN
      then Inr (True, append_diag f (Diagnostic_err (''Undefined symbol CONFIG_'' @ sym_name s) (full_range e)))
      else Inr (False, f))"

text \<open>\<open>check_type\<close>; \<open>hex\<close> of a value that is not an integer raises TypeError.\<close>

definition hex_of_value :: "pyval \<Rightarrow> string result" where
  "hex_of_value v = (case v of PInt i \<Rightarrow> Inr (py_hex i) | _ \<Rightarrow> Inl TypeError)"

definition check_type :: "ConfFile \<Rightarrow> ConfEntry \<Rightarrow> Symbol \<Rightarrow> (bool \<times> ConfFile) result" where
  "check_type f e s =
     (if TYPE_TO_STR (sym_type s) \<noteq> entry_type e then
        (let diag = Diagnostic_err (''Invalid type. Expected '' @ TYPE_TO_STR (sym_type s)) (full_range e)
         in if (sym_type s = HEX \<or> sym_type s = INTEGER) \<and> (is_hex e \<or> is_int e) then
              bind (entry_value e) (\<lambda>v.
                bind (if sym_type s = HEX then hex_of_value v else Inr (format_value v)) (\<lambda>txt.
                  Inr (True, append_diag f (add_action diag
                    ((new_CodeAction (''Convert value to '' @ TYPE_TO_STR (sym_type s)))
                       \<lparr>edit := edit_add [] (loc_uri (loc e))
                                  \<lparr>edit_range = value_range e, newText = txt\<rparr>\<rparr>)))))
            else Inr (True, append_diag f diag))
      else Inr (False, f))"

text \<open>
  \<open>check_assignment\<close>.  First the user value as the check compares it: for a bool or
  tristate symbol \<open>TRI_TO_STR[user_value]\<close>, which raises KeyError unless the user
  value is 0, 1 or 2.
\<close>

definition requested_value :: "Symbol \<Rightarrow> uval result" where
  "requested_value s =
     (if sym_type s = BOOL \<or> sym_type s = TRISTATE then
        (case user_value s of
           UTri n \<Rightarrow> (case TRI_TO_STR n of Some t \<Rightarrow> Inr (UStr t) | None \<Rightarrow> Inl KeyError)
         | _ \<Rightarrow> Inl KeyError)
      else Inr (user_value s))"

text \<open>The message and severity chosen before the dependencies are looked at; None
  stands for the early return when the value \<open>y\<close> is in effect.\<close>

definition assignment_message :: "ConfEntry \<Rightarrow> Symbol \<Rightarrow> uval \<Rightarrow> (string \<times> nat) option" where
  "assignment_message e s uv =
     (if uv = UStr (str_value s) then
        (if uv = UStr ''y'' then None
         else Some (''CONFIG_'' @ sym_name s @ '' was already disabled.'', HINT))
      else if str_value s \<noteq> [] then
        Some (''CONFIG_'' @ sym_name s @ '' was assigned the value '' @ raw e
                @ '', but got the value '' @ str_value s @ ''.'', WARNING)
      else Some (''CONFIG_'' @ sym_name s @ '' couldn'' @ [CHR 0x27] @ ''t be set.'', WARNING))"

text \<open>The loop over the missing dependencies: one edit for each that is a bool symbol,
  found by reading the entries of the file again.\<close>

fun dep_edits ::
  "World \<Rightarrow> ConfFile \<Rightarrow> ConfEntry \<Rightarrow> expr list \<Rightarrow> ((string \<times> TextEdit) list \<times> World) result" where
  "dep_edits w f e [] = Inr ([], w)"
| "dep_edits w f e (SymExpr d # ds) =
     (if dep_type d = BOOL then
        bind (entries w f) (\<lambda>(es, w1).
          bind (dep_edits w1 f e ds) (\<lambda>(r, w2).
            Inr ((dep_name d,
                  (case find (\<lambda>x. name x = dep_name d) es of
                     Some de \<Rightarrow> \<lparr>edit_range = value_range de, newText = ''y''\<rparr>
                   | None \<Rightarrow>
                       \<lparr>edit_range = \<lparr>rstart = rstart (line_range e), rend = rstart (line_range e)\<rparr>,
                        newText = ''CONFIG_'' @ dep_name d @ ''=y\<newline>''\<rparr>)) # r, w2)))
      else dep_edits w f e ds)"
| "dep_edits w f e (d # ds) = dep_edits w f e ds"

definition enable_actions :: "ConfFile \<Rightarrow> (string \<times> TextEdit) list \<Rightarrow> CodeAction list" where
  "enable_actions f edits =
     (if length edits = 1 then
        [(new_CodeAction (''Enable CONFIG_'' @ fst (hd edits) @ '' to resolve dependency''))
           \<lparr>edit := edit_add [] (file_uri f) (snd (hd edits))\<rparr>]
      else if length edits > 1 then
        [(new_CodeAction (''Enable '' @ py_str (int (length edits)) @ '' entries to resolve dependencies''))
           \<lparr>edit := foldl (\<lambda>ed x. edit_add ed (file_uri f) (snd x)) [] (rev edits)\<rparr>]
      else [])"

definition assignment_diag ::
  "ConfFile \<Rightarrow> ConfEntry \<Rightarrow> string \<Rightarrow> nat \<Rightarrow> expr list \<Rightarrow> (string \<times> TextEdit) list \<Rightarrow> Diagnostic" where
  "assignment_diag f e msg sev deps edits =
     (let d = new_Diagnostic
                (msg @ '' Missing dependencies:\<newline>'' @ join '' && '' (map expr_str deps))
                (entry_range e) sev
      in foldl add_action (if sev = HINT then mark_unnecessary d else d)
           (enable_actions f edits @ [entry_remove e ''Remove entry'']))"

definition check_assignment ::
  "World \<Rightarrow> ConfFile \<Rightarrow> ConfEntry \<Rightarrow> Symbol \<Rightarrow> (bool \<times> ConfFile \<times> World) result" where
  "check_assignment w f e s =
     bind (requested_value s) (\<lambda>uv.
       case assignment_message e s uv of
         None \<Rightarrow> Inr (False, f, w)
       | Some (msg, sev) \<Rightarrow>
           (if missing_deps s = [] then Inr (False, f, w)
            else bind (dep_edits w f e (missing_deps s)) (\<lambda>(edits, w1).
                   Inr (True, append_diag f (assignment_diag f e msg sev (missing_deps s) edits), w1))))"

text \<open>\<open>check_visibility\<close>: no node of the symbol has a prompt.\<close>

definition check_visibility :: "Kconfig \<Rightarrow> ConfFile \<Rightarrow> ConfEntry \<Rightarrow> Symbol \<Rightarrow> (bool \<times> ConfFile) result" where
  "check_visibility k f e s =
     (if \<not> list_ex (\<lambda>n. prompt (heap k n) \<noteq> None) (nodes s) then
        Inr (True, append_diag f
          (add_action
             (Diagnostic_warn (''Symbol CONFIG_'' @ name e @ '' cannot be set (has no prompt)'') (full_range e))
             (entry_remove e ''Remove entry'')))
      else Inr (False, f))"

text \<open>\<open>check_defaults\<close>: \<open>_str_default()\<close> is a string, so it never equals the 0, 1 or 2
  of a bool or tristate user value.\<close>

definition check_defaults :: "ConfFile \<Rightarrow> ConfEntry \<Rightarrow> Symbol \<Rightarrow> (bool \<times> ConfFile) result" where
  "check_defaults f e s =
     (if UStr (str_default s) = user_value s then
        Inr (True, append_diag f
          (add_action
             (mark_unnecessary (Diagnostic_hint (''Value is '' @ raw e @ '' by default'') (full_range e)))
             (entry_remove e ''Remove redundant entry'')))
      else Inr (False, f))"

text \<open>\<open>check_multiple_assignments\<close>.  The values are computed where the source
  formats or compares them, so a malformed number raises ValueError here.\<close>

fun related_infos :: "ConfEntry \<Rightarrow> ConfEntry list \<Rightarrow> (Location \<times> string) list result" where
  "related_infos e [] = Inr []"
| "related_infos e (x # xs) =
     (if entry_eq x e then related_infos e xs
      else bind (entry_value x) (\<lambda>v.
             bind (related_infos e xs) (\<lambda>r.
               Inr ((loc x, ''Already set to '' @ [CHR 0x22] @ format_value v @ [CHR 0x22] @ '' here'') # r))))"

definition check_multiple_assignments ::
  "ConfFile \<Rightarrow> ConfEntry \<Rightarrow> ConfEntry list \<Rightarrow> (bool \<times> ConfFile) result" where
  "check_multiple_assignments f e all_entries =
     (let matching = filter (\<lambda>x. name x = name e) all_entries
      in if length matching > 1 \<and> \<not> entry_eq (hd matching) e then
           bind (entry_value (hd matching)) (\<lambda>old.
             bind (entry_value e) (\<lambda>new.
               bind (related_infos e matching) (\<lambda>infos.
                 (let diag = (Diagnostic_warn
                                (name e @ '' set more than once. Old value '' @ [CHR 0x22] @ format_value old
                                   @ [CHR 0x22] @ '', new value '' @ [CHR 0x22] @ format_value new
                                   @ [CHR 0x22] @ ''.'')
                                (full_range e))\<lparr>related_info := infos\<rparr>
                  in Inr (True, append_diag f
                       (if old = new
                        then add_action ((mark_unnecessary diag)\<lparr>severity := HINT\<rparr>)
                               (entry_remove e ''Remove redundant entry'')
                        else diag))))))
         else Inr (False, f))"

section \<open>kconfiglsp.py: the lint pass\<close>

text \<open>\<open>KconfigContext.all_entries\<close>: the board file first, then the configuration files.\<close>

fun entries_of_files :: "World \<Rightarrow> ConfFile list \<Rightarrow> (ConfEntry list \<times> World) result" where
  "entries_of_files w [] = Inr ([], w)"
| "entries_of_files w (f # fs) =
     bind (entries w f) (\<lambda>(es, w1).
       bind (entries_of_files w1 fs) (\<lambda>(r, w2). Inr (es @ r, w2)))"

definition all_entries :: "World \<Rightarrow> KconfigContext \<Rightarrow> (ConfEntry list \<times> World) result" where
  "all_entries w c = entries_of_files w (board_conf_file (board c) # conf_files c)"

text \<open>The chain of checks of \<open>lint\<close> for one entry and its symbol: after a check that
  returns True the loop continues with the next entry.\<close>

definition run_checks ::
  "World \<Rightarrow> Kconfig \<Rightarrow> ConfEntry list \<Rightarrow> ConfFile \<Rightarrow> ConfEntry \<Rightarrow> Symbol \<Rightarrow> (ConfFile \<times> World) result" where
  "run_checks w k all f e s =
     bind (check_undefined f e s) (\<lambda>(r1, f1).
       if r1 then Inr (f1, w)
       else bind (check_type f1 e s) (\<lambda>(r2, f2).
         if r2 then Inr (f2, w)
         else bind (check_assignment w f2 e s) (\<lambda>(r3, f3, w3).
           if r3 then Inr (f3, w3)
           else bind (check_visibility k f3 e s) (\<lambda>(r4, f4).
             if r4 then Inr (f4, w3)
             else bind (check_defaults f4 e s) (\<lambda>(r5, f5).
               if r5 then Inr (f5, w3)
               else bind (check_multiple_assignments f5 e all) (\<lambda>(r6, f6). Inr (f6, w3)))))))"

text \<open>The body of the inner loop: an entry whose name is no symbol is skipped.\<close>

definition lint_entry ::
  "World \<Rightarrow> KconfigContext \<Rightarrow> ConfEntry list \<Rightarrow> ConfFile \<Rightarrow> ConfEntry \<Rightarrow> (ConfFile \<times> World) result" where
  "lint_entry w c all f e =
     bind (the_kconfig c) (\<lambda>k.
       case syms k (name e) of
         None \<Rightarrow> Inr (f, w)
       | Some s \<Rightarrow> run_checks w k all f e s)"

fun lint_entries ::
  "World \<Rightarrow> KconfigContext \<Rightarrow> ConfEntry list \<Rightarrow> ConfFile \<Rightarrow> ConfEntry list \<Rightarrow> (ConfFile \<times> World) result" where
  "lint_entries w c all f [] = Inr (f, w)"
| "lint_entries w c all f (e # es) =
     bind (lint_entry w c all f e) (\<lambda>(f1, w1). lint_entries w1 c all f1 es)"

fun lint_files ::
  "World \<Rightarrow> KconfigContext \<Rightarrow> ConfEntry list \<Rightarrow> ConfFile list \<Rightarrow> (ConfFile list \<times> World) result" where
  "lint_files w c all [] = Inr ([], w)"
| "lint_files w c all (f # fs) =
     bind (entries w f) (\<lambda>(es, w1).
       bind (lint_entries w1 c all f es) (\<lambda>(f1, w2).
         bind (lint_files w2 c all fs) (\<lambda>(fs1, w3). Inr (f1 # fs1, w3))))"

text \<open>\<open>KconfigContext.lint\<close>.\<close>

definition lint :: "World \<Rightarrow> KconfigContext \<Rightarrow> (KconfigContext \<times> World) result" where
  "lint w c =
     bind (all_entries w c) (\<lambda>(all, w1).
       bind (lint_files w1 c all (conf_files c)) (\<lambda>(fs, w2).
         Inr (c\<lparr>conf_files := fs\<rparr>, w2)))"

section \<open>kconfiglsp.py: setting values\<close>

text \<open>
  \<open>Symbol.set_value\<close> and \<open>Symbol.unset_value\<close> belong to the engine: setting the
  value of a named symbol says whether the value was accepted and leaves a new graph.
\<close>

type_synonym set_value_fn = "Kconfig \<Rightarrow> string \<Rightarrow> string \<Rightarrow> bool \<times> Kconfig"

type_synonym unset_value_fn = "Kconfig \<Rightarrow> string \<Rightarrow> Kconfig"

text \<open>\<open>KconfigContext.get\<close>.\<close>

definition ctx_get :: "KconfigContext \<Rightarrow> string \<Rightarrow> Symbol option" where
  "ctx_get c n = (case kconfig c of None \<Rightarrow> None | Some k \<Rightarrow> syms k n)"

text \<open>
  \<open>KconfigContext.set\<close>.  After an accepted value the name is looked up in
  \<open>self.modified\<close> (AttributeError when \<open>parse\<close> never created the attribute) and, when
  it is not in it, \<open>self.modified.append(name)\<close> is called: \<open>modified\<close> is a dict, which
  has no \<open>append\<close>, so this raises AttributeError.
\<close>

definition ctx_set :: "set_value_fn \<Rightarrow> KconfigContext \<Rightarrow> string \<Rightarrow> string \<Rightarrow> KconfigContext result" where
  "ctx_set sv c n v =
     (case kconfig c of
        None \<Rightarrow> Inl (RPCError UNKNOWN_NODE (''Unknown symbol '' @ n))
      | Some k \<Rightarrow>
          (case syms k n of
             None \<Rightarrow> Inl (RPCError UNKNOWN_NODE (''Unknown symbol '' @ n))
           | Some s \<Rightarrow>
               (case sv k n v of
                  (accepted, k') \<Rightarrow>
                    (if accepted then
                       (case modified c of
                          None \<Rightarrow> Inl AttributeError
                        | Some d \<Rightarrow>
                            (if n \<in> set d then Inr (c\<lparr>kconfig := Some k'\<rparr>)
                             else Inl AttributeError))
                     else Inr (c\<lparr>kconfig := Some k'\<rparr>)))))"

text \<open>\<open>KconfigContext.unset\<close>.\<close>

definition ctx_unset :: "unset_value_fn \<Rightarrow> KconfigContext \<Rightarrow> string \<Rightarrow> KconfigContext" where
  "ctx_unset uv c n =
     (case ctx_get c n of
        None \<Rightarrow> c
      | Some s \<Rightarrow> c\<lparr>kconfig := map_option (\<lambda>k. uv k n) (kconfig c)\<rparr>)"

section \<open>lsp.py and kconfiglsp.py: requests and their handlers\<close>

text \<open>
  The parameters of a request are a JSON object, here a map from keys to strings.  A
  handler returns None, a menu, or the dict of a search, whose \<open>symbols\<close> member is a
  lazy \<open>map\<close> object that is never evaluated.
\<close>

type_synonym params = "string \<rightharpoonup> string"

datatype message = Request int string params | Notification string params | Response int

datatype reply = NoReply | MenuReply KconfigMenu | SearchReply string string

text \<open>A response sent to the client: the request's id, the result, the error (code and
  message).\<close>

datatype sent_message = SentResponse int reply "(int \<times> string) option"

definition METHOD_NOT_FOUND :: int where
  "METHOD_NOT_FOUND = - 32601"

text \<open>The server: its sessions by identifier, the request being answered
  (\<open>self._req\<close>), what it has written to the client, and whether it is running.\<close>

record KconfigServer =
  ctx :: "string \<rightharpoonup> KconfigContext"
  cur_req :: "(int \<times> string \<times> params) option"
  sent :: "sent_message list"
  running :: bool

text \<open>\<open>params[key]\<close>.\<close>

definition param :: "params \<Rightarrow> string \<Rightarrow> string result" where
  "param p k = (case p k of None \<Rightarrow> Inl KeyError | Some v \<Rightarrow> Inr v)"

text \<open>
  \<open>RPCServer._send\<close>: \<open>encode_json\<close> turns an object that JSON does not know into its
  \<open>to_dict()\<close> or its \<open>__dict__\<close>; a \<open>map\<close> object has neither, so encoding a search
  result raises AttributeError.
\<close>

definition send :: "KconfigServer \<Rightarrow> sent_message \<Rightarrow> KconfigServer result" where
  "send srv m =
     (case m of
        SentResponse i (SearchReply c q) e \<Rightarrow> Inl AttributeError
      | _ \<Rightarrow> Inr (srv\<lparr>sent := sent srv @ [m]\<rparr>))"

text \<open>\<open>RPCServer.rsp\<close>.\<close>

definition rsp :: "KconfigServer \<Rightarrow> reply \<Rightarrow> (int \<times> string) option \<Rightarrow> KconfigServer result" where
  "rsp srv res err =
     (case cur_req srv of
        None \<Rightarrow> Inl (OtherException ''No command'')
      | Some (i, m, p) \<Rightarrow>
          bind (send srv (SentResponse i res err)) (\<lambda>srv1. Inr (srv1\<lparr>cur_req := None\<rparr>)))"

type_synonym handler = "KconfigServer \<Rightarrow> params \<Rightarrow> (reply \<times> KconfigServer) result"

text \<open>
  \<open>KconfigServer.handle_search\<close>.  The session is read with \<open>self.ctx[params['ctx']]\<close>,
  which raises KeyError for an unknown identifier; the test \<open>if not ctx\<close> after it is
  never true, a session object being truthy.  \<open>symbols\<close> reads the graph of the session.
\<close>

definition handle_search :: handler where
  "handle_search srv p =
     bind (param p ''ctx'') (\<lambda>cid.
       case ctx srv cid of
         None \<Rightarrow> Inl KeyError
       | Some c \<Rightarrow>
           bind (param p ''ctx'') (\<lambda>cid1.
             bind (param p ''query'') (\<lambda>q.
               bind (param p ''query'') (\<lambda>q1.
                 bind (the_kconfig c) (\<lambda>k. Inr (SearchReply cid1 q, srv))))))"

text \<open>\<open>KconfigServer.handle_set_menu\<close>.\<close>

definition handle_set_menu :: handler where
  "handle_set_menu srv p =
     bind (param p ''ctx'') (\<lambda>cid.
       case ctx srv cid of
         None \<Rightarrow> Inl KeyError
       | Some c \<Rightarrow>
           bind (param p ''id'') (\<lambda>i.
             bind (param p ''id'') (\<lambda>i1.
               bind (get_menu (c\<lparr>menu := Some i\<rparr>) (Some i1)) (\<lambda>m.
                 Inr (case m of None \<Rightarrow> NoReply | Some km \<Rightarrow> MenuReply km,
                      srv\<lparr>ctx := (ctx srv)(cid \<mapsto> c\<lparr>menu := Some i\<rparr>)\<rparr>)))))"

text \<open>\<open>KconfigServer.handle_setval\<close>.\<close>

definition handle_setval :: "set_value_fn \<Rightarrow> unset_value_fn \<Rightarrow> handler" where
  "handle_setval sv uv srv p =
     bind (param p ''ctx'') (\<lambda>cid.
       case ctx srv cid of
         None \<Rightarrow> Inl KeyError
       | Some c \<Rightarrow>
           (case p ''val'' of
              Some v0 \<Rightarrow>
                bind (param p ''name'') (\<lambda>n.
                  bind (param p ''val'') (\<lambda>v.
                    bind (ctx_set sv c n v) (\<lambda>c1.
                      Inr (NoReply, srv\<lparr>ctx := (ctx srv)(cid \<mapsto> c1)\<rparr>))))
            | None \<Rightarrow>
                bind (param p ''name'') (\<lambda>n.
                  Inr (NoReply, srv\<lparr>ctx := (ctx srv)(cid \<mapsto> ctx_unset uv c n)\<rparr>))))"

text \<open>\<open>LSPServer.handle_shutdown\<close>.\<close>

definition handle_shutdown :: handler where
  "handle_shutdown srv p = Inr (NoReply, srv\<lparr>running := False\<rparr>)"

text \<open>The table of handlers: the four above, and the remaining handlers of the server
  as a parameter.\<close>

definition handlers ::
  "set_value_fn \<Rightarrow> unset_value_fn \<Rightarrow> (string \<rightharpoonup> handler) \<Rightarrow> string \<Rightarrow> handler option" where
  "handlers sv uv others m =
     (if m = ''kconfig/search'' then Some handle_search
      else if m = ''kconfig/setMenu'' then Some handle_set_menu
      else if m = ''kconfig/setVal'' then Some (handle_setval sv uv)
      else if m = ''shutdown'' then Some handle_shutdown
      else others m)"

text \<open>\<open>RPCServer._recv\<close>, after decoding: a request becomes the request being answered.\<close>

definition recv :: "KconfigServer \<Rightarrow> message \<Rightarrow> KconfigServer" where
  "recv srv msg = (case msg of Request i m p \<Rightarrow> srv\<lparr>cur_req := Some (i, m, p)\<rparr> | _ \<Rightarrow> srv)"

text \<open>
  \<open>RPCServer.handle\<close>.  No handler is ever registered for a response.  Both
  \<open>except\<close> clauses around the call of the handler end with \<open>raise e\<close>: an exception of
  a handler leaves \<open>handle\<close>, and the response after the \<open>try\<close> is not sent.
\<close>

definition dispatch ::
  "set_value_fn \<Rightarrow> unset_value_fn \<Rightarrow> (string \<rightharpoonup> handler) \<Rightarrow> KconfigServer \<Rightarrow> string \<Rightarrow> params
     \<Rightarrow> KconfigServer result" where
  "dispatch sv uv others srv m p =
     (case handlers sv uv others m of
        Some h \<Rightarrow>
          (case h srv p of
             Inl e \<Rightarrow> Inl e
           | Inr (res, srv1) \<Rightarrow>
               (if cur_req srv1 \<noteq> None then rsp srv1 res None else Inr srv1))
      | None \<Rightarrow>
          (if cur_req srv \<noteq> None
           then rsp srv NoReply (Some (METHOD_NOT_FOUND, ''Unknown method '' @ [CHR 0x22] @ m @ [CHR 0x22]))
           else Inr srv))"

definition handle ::
  "set_value_fn \<Rightarrow> unset_value_fn \<Rightarrow> (string \<rightharpoonup> handler) \<Rightarrow> KconfigServer \<Rightarrow> message
     \<Rightarrow> KconfigServer result" where
  "handle sv uv others srv msg =
     (case msg of
        Response i \<Rightarrow> Inr srv
      | Request i m p \<Rightarrow> dispatch sv uv others srv m p
      | Notification m p \<Rightarrow> dispatch sv uv others srv m p)"

text \<open>
  \<open>RPCServer.loop\<close> over the messages that arrive: only KeyboardInterrupt is caught
  around the loop, so any exception that leaves \<open>handle\<close> ends the loop and the process.
\<close>

fun loop ::
  "set_value_fn \<Rightarrow> unset_value_fn \<Rightarrow> (string \<rightharpoonup> handler) \<Rightarrow> KconfigServer \<Rightarrow> message list
     \<Rightarrow> KconfigServer result" where
  "loop sv uv others srv [] = Inr srv"
| "loop sv uv others srv (m # ms) =
     (if running srv
      then bind (handle sv uv others (recv srv m) m) (\<lambda>srv1. loop sv uv others srv1 ms)
      else Inr srv)"

section \<open>An example session\<close>

text \<open>
  A build with one configuration file, and engine runs that succeed (a graph with the
  symbol \<open>FOO\<close>, a menu and a choice), fail with a parse error at a known location,
  fail with a parse error without location, and fail with another exception.
\<close>

definition example_env :: "string \<rightharpoonup> string" where
  "example_env =
     [''BOARD'' \<mapsto> ''nrf52dk'', ''ARCH'' \<mapsto> ''arm'', ''BOARD_DIR'' \<mapsto> ''/boards/nrf52dk'',
      ''ZEPHYR_BASE'' \<mapsto> ''/zephyr'']"

definition foo_symbol :: Symbol where
  "foo_symbol =
     \<lparr>sym_name = ''FOO'', sym_type = BOOL, orig_type = BOOL, user_value = UNone,
      str_value = ''n'', tri_value = 0, visibility = 2,
      direct_dep = OtherExpr ''y'' 2, nodes = [1], str_default = ''n''\<rparr>"

definition example_heap :: "nat \<Rightarrow> MenuNode" where
  "example_heap r =
     (if r = 1 then \<lparr>item = SymbolItem foo_symbol, prompt = Some ''Foo'', node_filename = ''Kconfig'', node_linenr = 2\<rparr>
      else if r = 2 then \<lparr>item = MENU, prompt = Some ''Drivers'', node_filename = ''Kconfig'', node_linenr = 5\<rparr>
      else if r = 3 then \<lparr>item = ChoiceItem, prompt = Some ''Pick'', node_filename = ''Kconfig'', node_linenr = 7\<rparr>
      else \<lparr>item = MENU, prompt = Some ''Main menu'', node_filename = ''Kconfig'', node_linenr = 1\<rparr>)"

definition engine_ok :: engine where
  "engine_ok k =
     (None, k\<lparr>linenr := Some 9, srctree := ''/zephyr'', syms := [''FOO'' \<mapsto> foo_symbol],
              unique_defined_syms := [''FOO''], menus := [2], choices := [3], comments := [],
              top_node := 0, heap := example_heap\<rparr>)"

definition engine_syntax_error :: engine where
  "engine_syntax_error k =
     (Some (KconfigError ''Kconfig:3: error: unknown keyword confg''),
      k\<lparr>linenr := Some 3, srctree := ''/zephyr'', valid := True\<rparr>)"

definition session0 :: KconfigContext where
  "session0 =
     \<lparr>ctx_uri = uri_file ''/app/build'', env = example_env, conf_files = [new_ConfFile (uri_file ''/app/prj.conf'')],
      board = \<lparr>board_name = ''nrf52dk'', arch = ''arm'', dir = ''/boards/nrf52dk''\<rparr>,
      version = 0, root = ''Kconfig'', kconfig = None, menu = None, cmd_diags = [],
      kconfig_diags = [], modified = None\<rparr>"

definition engine_no_location :: engine where
  "engine_no_location k =
     (Some (KconfigError ''error: recursive dependency''), k\<lparr>filename := [], linenr := None\<rparr>)"

definition engine_crash :: engine where
  "engine_crash k = (Some (EngineException ''[Errno 2] No such file''), k\<lparr>linenr := Some 3\<rparr>)"

text \<open>The session after one and after two successful evaluations.\<close>

definition reparse :: "KconfigContext \<Rightarrow> KconfigContext" where
  "reparse c = (case parse engine_ok c of Inr c' \<Rightarrow> c' | Inl e \<Rightarrow> c)"

definition session1 :: KconfigContext where
  "session1 = reparse session0"

definition session2 :: KconfigContext where
  "session2 = reparse session1"

section \<open>An example of a lint pass\<close>

text \<open>
  The session after the engine has loaded the configuration files: \<open>FOO\<close> depends on
  \<open>BAR\<close>, which is off; \<open>BAZ\<close> is assigned twice; \<open>QUX\<close> has no unmet dependency but
  its value did not take effect; \<open>NOPE\<close> is referenced and never defined; \<open>NUM\<close> is
  an int written in hexadecimal; \<open>HIDDEN\<close> has no prompt; \<open>NAME\<close> is assigned its
  default.  The configuration file is an open document, the board file is on disk.
\<close>

definition bar_dep :: DepSymbol where
  "bar_dep = \<lparr>dep_name = ''BAR'', dep_type = BOOL, dep_tri = 0\<rparr>"

definition no_dep :: expr where
  "no_dep = OtherExpr ''y'' 2"

definition loaded_syms :: "string \<rightharpoonup> Symbol" where
  "loaded_syms =
     [''FOO'' \<mapsto> \<lparr>sym_name = ''FOO'', sym_type = BOOL, orig_type = BOOL, user_value = UTri 2,
                    str_value = ''n'', tri_value = 0, visibility = 0,
                    direct_dep = SymExpr bar_dep, nodes = [1], str_default = ''n''\<rparr>,
      ''BAR'' \<mapsto> \<lparr>sym_name = ''BAR'', sym_type = BOOL, orig_type = BOOL, user_value = UNone,
                    str_value = ''n'', tri_value = 0, visibility = 2,
                    direct_dep = no_dep, nodes = [4], str_default = ''n''\<rparr>,
      ''BAZ'' \<mapsto> \<lparr>sym_name = ''BAZ'', sym_type = INTEGER, orig_type = INTEGER, user_value = UStr ''2'',
                    str_value = ''2'', tri_value = 0, visibility = 2,
                    direct_dep = no_dep, nodes = [5], str_default = ''0''\<rparr>,
      ''QUX'' \<mapsto> \<lparr>sym_name = ''QUX'', sym_type = BOOL, orig_type = BOOL, user_value = UTri 2,
                    str_value = ''n'', tri_value = 0, visibility = 0,
                    direct_dep = no_dep, nodes = [6], str_default = ''n''\<rparr>,
      ''NOPE'' \<mapsto> \<lparr>sym_name = ''NOPE'', sym_type = UNKNOWN, orig_type = UNKNOWN, user_value = UNone,
                     str_value = [], tri_value = 0, visibility = 0,
                     direct_dep = OtherExpr ''n'' 0, nodes = [], str_default = []\<rparr>,
      ''NUM'' \<mapsto> \<lparr>sym_name = ''NUM'', sym_type = INTEGER, orig_type = INTEGER, user_value = UNone,
                    str_value = ''0'', tri_value = 0, visibility = 2,
                    direct_dep = no_dep, nodes = [8], str_default = ''0''\<rparr>,
      ''HIDDEN'' \<mapsto> \<lparr>sym_name = ''HIDDEN'', sym_type = BOOL, orig_type = BOOL, user_value = UTri 2,
                       str_value = ''y'', tri_value = 2, visibility = 0,
                       direct_dep = no_dep, nodes = [7], str_default = ''y''\<rparr>,
      ''NAME'' \<mapsto> \<lparr>sym_name = ''NAME'', sym_type = STRING, orig_type = STRING, user_value = UStr ''zephyr'',
                     str_value = ''zephyr'', tri_value = 0, visibility = 2,
                     direct_dep = no_dep, nodes = [9], str_default = ''zephyr''\<rparr>]"

definition loaded_heap :: "nat \<Rightarrow> MenuNode" where
  "loaded_heap r =
     \<lparr>item = NoItem, prompt = (if r = 7 then None else Some ''A setting''),
      node_filename = ''Kconfig'', node_linenr = int r\<rparr>"

definition loaded_kconfig :: Kconfig where
  "loaded_kconfig =
     \<lparr>filename = ''Kconfig'', linenr = Some 9, srctree = ''/zephyr'', valid = True, kc_diags = [],
      syms = loaded_syms,
      unique_defined_syms = [''FOO'', ''BAR'', ''BAZ'', ''QUX'', ''NUM'', ''HIDDEN'', ''NAME''],
      menus = [], choices = [], comments = [], top_node = 0, heap = loaded_heap\<rparr>"

definition loaded_session :: KconfigContext where
  "loaded_session = session1\<lparr>kconfig := Some loaded_kconfig\<rparr>"

definition prj_conf :: TextDocument where
  "prj_conf =
     new_TextDocument (uri_file ''/app/prj.conf'')
       (Some (''CONFIG_FOO=y\<newline>CONFIG_BAZ=1\<newline>CONFIG_BAZ=2\<newline>CONFIG_QUX=y\<newline>CONFIG_NOPE=y\<newline>''
              @ ''CONFIG_NUM=0x10\<newline>CONFIG_HIDDEN=y\<newline>CONFIG_NAME=''
              @ [CHR 0x22] @ ''zephyr'' @ [CHR 0x22] @ ''\<newline>''))
       (Some ''properties'') (Some 1)"

definition board_disk :: filesystem where
  "board_disk p =
     (if p = ''/boards/nrf52dk/nrf52dk_defconfig'' then Inr ''CONFIG_SERIAL=y\<newline>''
      else Inl EnvironmentError)"

definition example_world :: World where
  "example_world =
     \<lparr>store = \<lparr>docs = [''file:///app/prj.conf'' \<mapsto> prj_conf], providers = Map.empty\<rparr>,
      disk = board_disk, next_ref = 0\<rparr>"

definition prj_file :: ConfFile where
  "prj_file = new_ConfFile (uri_file ''/app/prj.conf'')"

text \<open>The entries of the lint pass: the full list across the files, read first, and the
  entries of the configuration file, read again after it.\<close>

definition example_all_entries :: "ConfEntry list" where
  "example_all_entries =
     (case all_entries example_world loaded_session of Inr (es, w) \<Rightarrow> es | Inl x \<Rightarrow> [])"

definition world_after_all_entries :: World where
  "world_after_all_entries =
     (case all_entries example_world loaded_session of Inr (es, w) \<Rightarrow> w | Inl x \<Rightarrow> example_world)"

definition entry_at :: "nat \<Rightarrow> ConfEntry" where
  "entry_at i =
     (case entries world_after_all_entries prj_file of Inr (es, w) \<Rightarrow> es ! i | Inl x \<Rightarrow> undefined)"

definition symbol_named :: "string \<Rightarrow> Symbol" where
  "symbol_named n = the (loaded_syms n)"

text \<open>Readings of results: whether a computation raised, whether a check returned
  True, what a check leaves behind, and the diagnostics a lint pass put on a line.\<close>

definition raised :: "'a result \<Rightarrow> bool" where
  "raised r = (case r of Inl x \<Rightarrow> True | Inr y \<Rightarrow> False)"

definition fired :: "(bool \<times> 'a) result \<Rightarrow> bool" where
  "fired r = (case r of Inl x \<Rightarrow> False | Inr (b, y) \<Rightarrow> b)"

definition after_check :: "(bool \<times> ConfFile) result \<Rightarrow> World \<Rightarrow> (ConfFile \<times> World) result" where
  "after_check r w = (case r of Inl x \<Rightarrow> Inl x | Inr (b, f) \<Rightarrow> Inr (f, w))"

definition diags_after :: "(ConfFile \<times> World) result \<Rightarrow> Diagnostic list" where
  "diags_after r = (case r of Inl x \<Rightarrow> [] | Inr (f, w) \<Rightarrow> file_diags f)"

definition lint_report ::
  "(KconfigContext \<times> World) result \<Rightarrow> (int \<times> nat \<times> nat list \<times> string \<times> string list) list option" where
  "lint_report r =
     (case r of
        Inl x \<Rightarrow> None
      | Inr (c, w) \<Rightarrow>
          Some (map (\<lambda>d. (line (rstart (diag_range d)), severity d, tags d, message d, map title (actions d)))
                  (concat (map file_diags (conf_files c)))))"

definition report_on_line ::
  "int \<Rightarrow> (KconfigContext \<times> World) result \<Rightarrow> (nat \<times> nat list \<times> string \<times> string list) list" where
  "report_on_line n r =
     (case lint_report r of
        None \<Rightarrow> []
      | Some ds \<Rightarrow> map snd (filter (\<lambda>x. fst x = n) ds))"

definition quoted :: "string \<Rightarrow> string" where
  "quoted s = [CHR 0x22] @ s @ [CHR 0x22]"

text \<open>The entry that the line \<open>CONFIG_n=v\<close>, number \<open>l\<close> of the file at path \<open>p\<close>, is read
  as, with the identity \<open>r\<close> of its location.\<close>

definition example_entry :: "string \<Rightarrow> int \<Rightarrow> nat \<Rightarrow> string \<Rightarrow> string \<Rightarrow> ConfEntry" where
  "example_entry p l r n v =
     \<lparr>name = n,
      loc = \<lparr>loc_uri = uri_file p,
             loc_range = \<lparr>rstart = \<lparr>line = l, character = 0\<rparr>,
                          rend = \<lparr>line = l, character = int (7 + length n)\<rparr>\<rparr>\<rparr>,
      loc_ref = r, raw = v,
      value_range = \<lparr>rstart = \<lparr>line = l, character = int (8 + length n)\<rparr>,
                     rend = \<lparr>line = l, character = int (8 + length n + length v)\<rparr>\<rparr>\<rparr>"

definition prj_entries :: "nat \<Rightarrow> ConfEntry list" where
  "prj_entries r =
     [example_entry ''/app/prj.conf'' 0 r ''FOO'' ''y'',
      example_entry ''/app/prj.conf'' 1 (r + 1) ''BAZ'' ''1'',
      example_entry ''/app/prj.conf'' 2 (r + 2) ''BAZ'' ''2'',
      example_entry ''/app/prj.conf'' 3 (r + 3) ''QUX'' ''y'',
      example_entry ''/app/prj.conf'' 4 (r + 4) ''NOPE'' ''y'',
      example_entry ''/app/prj.conf'' 5 (r + 5) ''NUM'' ''0x10'',
      example_entry ''/app/prj.conf'' 6 (r + 6) ''HIDDEN'' ''y'',
      example_entry ''/app/prj.conf'' 7 (r + 7) ''NAME'' (quoted ''zephyr'')]"

text \<open>The document of a file can be had: the store returns one.\<close>

definition doc_available :: "World \<Rightarrow> ConfFile \<Rightarrow> bool" where
  "doc_available w f =
     (case DocumentStore_get (store w) (disk w) (file_uri f) True of
        Inr (Some d, st) \<Rightarrow> True
      | _ \<Rightarrow> False)"

section \<open>An example server\<close>

text \<open>A server with the one session of the example, evaluated once; an engine that
  accepts the values \<open>y\<close> and \<open>n\<close> and rejects everything else.\<close>

definition example_server :: KconfigServer where
  "example_server =
     \<lparr>ctx = [''file:///app/build'' \<mapsto> session1], cur_req = None, sent = [], running = True\<rparr>"

definition bool_set_value :: set_value_fn where
  "bool_set_value k n v = (v = ''y'' \<or> v = ''n'', k)"

definition no_unset_value :: unset_value_fn where
  "no_unset_value k n = k"

definition search_unknown_session :: message where
  "search_unknown_session =
     Request 7 ''kconfig/search'' [''ctx'' \<mapsto> ''file:///other/build'', ''query'' \<mapsto> ''FOO'']"

definition setval_unknown_symbol :: message where
  "setval_unknown_symbol =
     Request 8 ''kconfig/setVal''
       [''ctx'' \<mapsto> ''file:///app/build'', ''name'' \<mapsto> ''NOSUCH'', ''val'' \<mapsto> ''y'']"

definition set_menu_stale :: message where
  "set_menu_stale =
     Request 9 ''kconfig/setMenu'' [''ctx'' \<mapsto> ''file:///app/build'', ''id'' \<mapsto> ''0@MENU@0'']"

definition unknown_method :: message where
  "unknown_method = Request 10 ''kconfig/nothing'' Map.empty"

text \<open>The parameters of a \<open>kconfig/setVal\<close> request for \<open>FOO\<close>, with or without a value.\<close>

definition setval_params :: "string option \<Rightarrow> params" where
  "setval_params v = (\<lambda>k. if k = ''ctx'' then Some ''file:///app/build''
                          else if k = ''name'' then Some ''FOO''
                          else if k = ''val'' then v else None)"

section \<open>Offset and position conversion\<close>

text \<open>
  C7. The claim is that converting an in-range position to an offset and back returns
  the position.  In the buffer with the two lines \<open>ab\<close> and \<open>cd\<close> the position
  (line 1, column 0) is in range and has offset 3, and \<open>pos\<close> maps offset 3 to
  (line 0, column 2): the text before the offset ends with a newline, which
  \<open>splitlines\<close> drops, so the start of a line is reported as the end of the line before.
\<close>

theorem offset_pos_line_start:
  "lines two_line_doc = [''ab'', ''cd''] \<and>
   in_range two_line_doc \<lparr>line = 1, character = 0\<rparr> \<and>
   offset two_line_doc \<lparr>line = 1, character = 0\<rparr> = Inr 3 \<and>
   pos two_line_doc 3 = \<lparr>line = 0, character = 2\<rparr> \<and>
   pos two_line_doc 3 \<noteq> \<lparr>line = 1, character = 0\<rparr>"
  by (simp add: two_line_doc_def new_TextDocument_def set_text_def splitlines_def
      is_linebreak_def in_range_def offset_def pos_def py_index_def bind_def text_of_def
      slice_to_def slice_bound_def UNKNOWN_VERSION_def uri_file_def)

text \<open>
  The same happens at the start of every line but the first, in every buffer whose lines
  hold no line break (as the lines that \<open>splitlines\<close> yields do): the position
  (line \<open>l\<close>, column 0) is mapped back to the end of line \<open>l - 1\<close>.
\<close>

lemma splitlines_from_line:
  "list_all (\<lambda>c. \<not> is_linebreak c) l \<Longrightarrow>
   splitlines_from cur (l @ CHR 0x0A # r) = (rev cur @ l) # splitlines_from [] r"
proof (induction l arbitrary: cur)
  case Nil
  then show ?case by (cases r) (simp_all add: is_linebreak_def)
next
  case (Cons x xs)
  obtain y ys where t: "xs @ CHR 0x0A # r = y # ys"
    by (cases "xs @ CHR 0x0A # r") auto
  have "\<not> is_linebreak x" using Cons.prems by simp
  moreover have "x \<noteq> CHR 0x0D" using calculation by (auto simp: is_linebreak_def)
  ultimately have "splitlines_from cur (x # xs @ CHR 0x0A # r) = splitlines_from (x # cur) (xs @ CHR 0x0A # r)"
    using t by simp
  then show ?case using Cons by simp
qed

lemma splitlines_lines:
  "list_all (list_all (\<lambda>c. \<not> is_linebreak c)) ls \<Longrightarrow>
   splitlines_from [] (concat (map (\<lambda>l. l @ [CHR 0x0A]) ls)) = ls"
  by (induction ls) (simp_all add: splitlines_from_line)

lemma text_of_concat:
  assumes "lines d \<noteq> []"
  shows "text_of d = concat (map (\<lambda>l. l @ [CHR 0x0A]) (lines d))"
proof -
  have "ls \<noteq> [] \<Longrightarrow> join [CHR 0x0A] ls @ [CHR 0x0A] = concat (map (\<lambda>l. l @ [CHR 0x0A]) ls)" for ls
    by (induction ls rule: join.induct[where ?a0.0 = "[CHR 0x0A]"]) simp_all
  then show ?thesis using assms by (simp add: text_of_def)
qed

lemma line_start_maps_to_previous_line_end:
  assumes "list_all (list_all (\<lambda>c. \<not> is_linebreak c)) (lines d)"
    and "0 < l" and "l < length (lines d)"
  shows "offset d \<lparr>line = int l, character = 0\<rparr>
           = Inr (int (length (concat (map (\<lambda>l. l @ [CHR 0x0A]) (take l (lines d))))))"
    and "pos d (int (length (concat (map (\<lambda>l. l @ [CHR 0x0A]) (take l (lines d))))))
           = \<lparr>line = int l - 1, character = int (length (lines d ! (l - 1)))\<rparr>"
proof -
  let ?nl = "\<lambda>l. l @ [CHR 0x0A]"
  let ?pre = "concat (map ?nl (take l (lines d)))"
  have ne: "lines d \<noteq> []" using assms(3) by auto
  show "offset d \<lparr>line = int l, character = 0\<rparr> = Inr (int (length ?pre))"
    using assms(2,3) by (simp add: offset_def py_index_def bind_def slice_to_def slice_bound_def)
  have "text_of d = ?pre @ concat (map ?nl (drop l (lines d)))"
    using text_of_concat [OF ne] by (metis append_take_drop_id concat_append map_append)
  then have sl: "slice_to (text_of d) (int (length ?pre)) = ?pre"
    by (simp add: slice_to_def slice_bound_def)
  have "list_all (list_all (\<lambda>c. \<not> is_linebreak c)) (take l (lines d))"
    using assms(1) by (auto simp: list_all_iff dest: in_set_takeD)
  then have sp: "splitlines ?pre = take l (lines d)"
    by (simp add: splitlines_def splitlines_lines)
  have tl: "take l (lines d) \<noteq> []" "length (take l (lines d)) = l"
    using assms(2,3) by auto
  have "last (take l (lines d)) = lines d ! (l - 1)"
    using assms(2,3) tl by (simp add: last_conv_nth)
  then show "pos d (int (length ?pre)) = \<lparr>line = int l - 1, character = int (length (lines d ! (l - 1)))\<rparr>"
    using sl sp tl assms(2) by (simp add: pos_def Let_def)
qed

section \<open>Document lookup\<close>

text \<open>
  C8 as stated: the existing buffer is returned first, and a provider is asked only when
  there is none.  In the store \<open>provider_store\<close> a buffer exists for the identifier and
  a provider is registered for its scheme; the lookup returns the provider's answer
  (nothing), not the buffer.
\<close>

theorem get_prefers_provider_counterexample:
  "docs provider_store (uri_str menu_uri) = Some menu_doc \<and>
   DocumentStore_get provider_store no_files menu_uri True = Inr (None, provider_store) \<and>
   DocumentStore_get provider_store no_files menu_uri True \<noteq> Inr (Some menu_doc, provider_store)"
  by (simp add: DocumentStore_get_def provider_store_def menu_uri_def)

text \<open>
  C8 as amended: a provider registered for the identifier's scheme is asked first and its
  answer is the result; only otherwise the existing buffer is returned; only otherwise,
  and only when \<open>create\<close> is true, the buffer is read from persistent storage and cached;
  and the result is nothing, not an error, when the file cannot be opened or \<open>create\<close>
  is false.
\<close>

theorem DocumentStore_get_order:
  "(providers st (scheme u) = Some p \<longrightarrow>
      DocumentStore_get st fs u create = Inr (p u, st)) \<and>
   (providers st (scheme u) = None \<and> docs st (uri_str u) = Some d \<longrightarrow>
      DocumentStore_get st fs u create = Inr (Some d, st)) \<and>
   (providers st (scheme u) = None \<and> docs st (uri_str u) = None \<and> create \<and> fs (path u) = Inr t \<longrightarrow>
      DocumentStore_get st fs u create =
        Inr (Some (new_TextDocument u (Some t) None None),
             st\<lparr>docs := (docs st)(uri_str u \<mapsto> new_TextDocument u (Some t) None None)\<rparr>)) \<and>
   (providers st (scheme u) = None \<and> docs st (uri_str u) = None \<and>
      (\<not> create \<or> fs (path u) = Inl EnvironmentError) \<longrightarrow>
      DocumentStore_get st fs u create = Inr (None, st))"
  by (auto simp: DocumentStore_get_def from_disk_def Let_def)

theorem DocumentStore_get_order_witness:
  "DocumentStore_get provider_store no_files menu_uri True = Inr (None, provider_store) \<and>
   DocumentStore_get cached_store no_files menu_uri False = Inr (Some menu_doc, cached_store) \<and>
   DocumentStore_get empty_store one_file (uri_file ''/prj.conf'') True =
     Inr (Some (new_TextDocument (uri_file ''/prj.conf'') (Some ''CONFIG_A=y\<newline>'') None None),
          empty_store\<lparr>docs := (docs empty_store)(uri_str (uri_file ''/prj.conf'') \<mapsto>
            new_TextDocument (uri_file ''/prj.conf'') (Some ''CONFIG_A=y\<newline>'') None None)\<rparr>) \<and>
   DocumentStore_get empty_store no_files (uri_file ''/prj.conf'') True = Inr (None, empty_store) \<and>
   DocumentStore_get empty_store one_file (uri_file ''/prj.conf'') False = Inr (None, empty_store)"
proof -
  have p: "providers provider_store (scheme menu_uri) = Some (\<lambda>u. None)"
    by (simp add: provider_store_def menu_uri_def)
  have c: "providers cached_store (scheme menu_uri) = None \<and>
           docs cached_store (uri_str menu_uri) = Some menu_doc"
    by (simp add: cached_store_def)
  have e: "providers empty_store (scheme (uri_file ''/prj.conf'')) = None \<and>
           docs empty_store (uri_str (uri_file ''/prj.conf'')) = None"
    by (simp add: empty_store_def)
  have f: "one_file (path (uri_file ''/prj.conf'')) = Inr ''CONFIG_A=y\<newline>''"
    by (simp add: one_file_def uri_file_def)
  have n: "no_files (path (uri_file ''/prj.conf'')) = Inl EnvironmentError"
    by (simp add: no_files_def)
  show ?thesis
    using p c e f n
      DocumentStore_get_order [of provider_store menu_uri "\<lambda>u. None" no_files True]
      DocumentStore_get_order [of cached_store menu_uri _ no_files False menu_doc]
      DocumentStore_get_order [of empty_store "uri_file ''/prj.conf''" _ one_file True _ "''CONFIG_A=y\<newline>''"]
      DocumentStore_get_order [of empty_store "uri_file ''/prj.conf''" _ no_files True]
      DocumentStore_get_order [of empty_store "uri_file ''/prj.conf''" _ one_file False]
    by simp
qed

section \<open>Integers and their decimal strings\<close>

lemma char_of_digit:
  "char_of (48::nat) = CHR ''0''" "char_of (49::nat) = CHR ''1''" "char_of (50::nat) = CHR ''2''"
  "char_of (51::nat) = CHR ''3''" "char_of (52::nat) = CHR ''4''" "char_of (53::nat) = CHR ''5''"
  "char_of (54::nat) = CHR ''6''" "char_of (55::nat) = CHR ''7''" "char_of (56::nat) = CHR ''8''"
  "char_of (57::nat) = CHR ''9''"
  by code_simp+

lemma is_digit_digit_char: "n < 10 \<Longrightarrow> is_digit (digit_char n)"
  by (simp add: is_digit_def digit_char_def)

lemma digit_val_digit_char: "n < 10 \<Longrightarrow> digit_val (digit_char n) = n"
  by (simp add: digit_val_def digit_char_def)

lemma digits_nonempty: "digits n \<noteq> []"
  by (subst digits.simps) simp

lemma digits_all_digit: "list_all is_digit (digits n)"
proof (induction n rule: digits.induct)
  case (1 n)
  show ?case
  proof (cases "n < 10")
    case True
    then show ?thesis by (subst digits.simps) (simp add: is_digit_digit_char)
  next
    case False
    with 1 show ?thesis by (subst digits.simps) (simp add: is_digit_digit_char)
  qed
qed

lemma digits_value_digits_only:
  "list_all is_digit ds \<Longrightarrow> digits_value acc ds = Some (foldl (\<lambda>a c. a * 10 + digit_val c) acc ds)"
  by (induction acc ds rule: digits_value.induct) simp_all

lemma foldl_digits: "foldl (\<lambda>a c. a * 10 + digit_val c) 0 (digits n) = n"
proof (induction n rule: digits.induct)
  case (1 n)
  show ?case
  proof (cases "n < 10")
    case True
    then show ?thesis by (subst digits.simps) (simp add: digit_val_digit_char)
  next
    case False
    with 1 show ?thesis by (subst digits.simps) (simp add: digit_val_digit_char)
  qed
qed

lemma number_value_digits: "number_value (digits n) = Some n"
proof -
  obtain c cs where d: "digits n = c # cs"
    using digits_nonempty [of n] by (cases "digits n") auto
  have "is_digit c"
    using digits_all_digit [of n] d by simp
  then show ?thesis
    using digits_value_digits_only [OF digits_all_digit, of 0 n] foldl_digits [of n] d
    by (simp add: number_value_def)
qed

lemma digit_not_space: "is_digit c \<Longrightarrow> \<not> is_space c"
  by (auto simp: is_digit_def is_space_def Let_def)

lemma strip_digits: "strip (digits n) = digits n"
proof -
  obtain c cs where d: "digits n = c # cs"
    using digits_nonempty [of n] by (cases "digits n") auto
  have all: "list_all is_digit (digits n)" by (rule digits_all_digit)
  have h: "\<not> is_space (hd (digits n))"
    using all d by (simp add: digit_not_space)
  have l: "\<not> is_space (last (digits n))"
    using all digits_nonempty [of n] by (simp add: digit_not_space list_all_iff)
  have "dropWhile is_space (digits n) = digits n"
    using h d by simp
  moreover have "dropWhile is_space (rev (digits n)) = rev (digits n)"
    using l digits_nonempty [of n] by (cases "rev (digits n)") (auto simp: last_rev hd_rev)
  ultimately show ?thesis by (simp add: strip_def)
qed

lemma strip_minus_digits: "strip (CHR ''-'' # digits n) = CHR ''-'' # digits n"
proof -
  have l: "\<not> is_space (last (digits n))"
    using digits_all_digit [of n] digits_nonempty [of n] by (simp add: digit_not_space list_all_iff)
  have m: "\<not> is_space CHR ''-''" by (simp add: is_space_def)
  have "dropWhile is_space (rev (CHR ''-'' # digits n)) = rev (CHR ''-'' # digits n)"
    using l digits_nonempty [of n] by (cases "rev (digits n)") (auto simp: last_rev hd_rev)
  then show ?thesis using m by (simp add: strip_def)
qed

lemma py_int_py_str: "py_int (py_str i) = Inr i"
proof (cases "i < 0")
  case True
  then show ?thesis
    by (simp add: py_int_def py_str_def strip_minus_digits number_value_digits)
next
  case False
  obtain c cs where d: "digits (nat i) = c # cs"
    using digits_nonempty [of "nat i"] by (cases "digits (nat i)") auto
  have dc: "is_digit c"
    using digits_all_digit [of "nat i"] d by simp
  then have "c \<noteq> CHR ''-''" "c \<noteq> CHR ''+''"
    by (auto simp: is_digit_def)
  moreover have "number_value (c # cs) = Some (nat i)"
    using number_value_digits [of "nat i"] d by simp
  moreover have "strip (digits (nat i)) = c # cs"
    using strip_digits [of "nat i"] d by simp
  ultimately show ?thesis using False
    by (simp add: py_int_def py_str_def)
qed

lemma py_str_no_sep: "CHR ''@'' \<notin> set (py_str i)"
proof -
  have "\<not> is_digit CHR ''@''" by (simp add: is_digit_def)
  then have "CHR ''@'' \<notin> set (digits n)" for n
    using digits_all_digit [of n] by (auto simp: list_all_iff)
  then show ?thesis by (simp add: py_str_def)
qed

lemma split_from_sep:
  "sep \<notin> set p \<Longrightarrow> split_from sep cur (p @ sep # r) = (rev cur @ p) # split_from sep [] r"
  by (induction p arbitrary: cur) auto

lemma split_from_nonempty: "split_from sep cur s \<noteq> []"
  by (induction s arbitrary: cur) auto

section \<open>Node identity tokens\<close>

lemma split_version_prefix:
  "split ID_SEP (py_str v @ ID_SEP # r) = py_str v # split ID_SEP r"
  using split_from_sep [of ID_SEP "py_str v" "[]" r] py_str_no_sep [of v]
  by (simp add: split_def ID_SEP_def)

lemma split_cons: "\<exists>x xs. split sep s = x # xs"
  using split_from_nonempty [of sep "[]" s] by (cases "split_from sep [] s") (auto simp: split_def)

lemma find_node_versioned:
  "find_node c (py_str v @ ID_SEP # r) =
     (if v \<noteq> version c then Inr None
      else find_kind c (hd (split ID_SEP r)) (tl (split ID_SEP r)))"
proof -
  obtain x xs where "split ID_SEP r = x # xs"
    using split_cons by blast
  then show ?thesis
    by (simp add: find_node_def split_version_prefix py_int_py_str bind_def)
qed

lemma join_values_strings:
  "join_values sep (PStr a # vs) = Inr t \<Longrightarrow> vs \<noteq> [] \<Longrightarrow> \<exists>r. t = a @ sep @ r"
  by (cases vs) (auto simp: join_values_def split: if_splits)

lemma node_parts_nonempty: "node_parts k n = Inr ps \<Longrightarrow> ps \<noteq> []"
  by (auto simp: node_parts_def bind_def split: if_splits item.splits sum.splits)

lemmas example_session_defs =
  session2_def session1_def reparse_def session0_def parse_def clear_diags_def
  initialize_env_def example_env_def Kconfig_parse_def engine_init_def new_Kconfig_def
  engine_ok_def bind_def

lemmas find_node_defs =
  find_node_def find_kind_def split_def ID_SEP_def py_int_def strip_def number_value_def
  is_space_def is_digit_def digit_val_def the_kconfig_def lookup_sym_def py_index_def

lemma version_session1: "version session1 = 1"
  by (simp add: example_session_defs)

lemma version_session2: "version session2 = 2"
  by (simp add: example_session_defs)

text \<open>
  C1 as stated: a token whose version is not the session's fails to resolve with the
  Desync error.  The session below has been evaluated twice (version 2); the token
  \<open>1@SYM@FOO@0\<close>, issued at version 1, resolves to None: \<open>find_node\<close> returns None
  without raising, and \<open>get_menu\<close> returns no menu, which is what both do for an
  identifier of an unknown kind.
\<close>

theorem stale_token_counterexample:
  "node_id session1 1 = Inr ''1@SYM@FOO@0'' \<and>
   version session2 = 2 \<and>
   find_node session2 ''1@SYM@FOO@0'' = Inr None \<and>
   \<not> is_desync (find_node session2 ''1@SYM@FOO@0'') \<and>
   get_menu session2 (Some ''1@SYM@FOO@0'') = Inr None \<and>
   \<not> is_desync (get_menu session2 (Some ''1@SYM@FOO@0'')) \<and>
   find_node session2 ''2@NOSUCHKIND'' = Inr None \<and>
   find_node session2 ''2@SYM@FOO@0'' = Inr (Some 1)"
  by (simp add: example_session_defs find_node_defs get_menu_def is_desync_def
      node_id_def node_parts_def example_heap_def foo_symbol_def index_def join_values_def
      py_str_def digits.simps digit_char_def char_of_digit)

text \<open>
  C1 as amended: for every session and every token whose leading version differs from
  the session's current version, resolving the token yields nothing: \<open>find_node\<close>
  returns None and \<open>get_menu\<close> returns no menu, and neither raises the Desync error.
\<close>

theorem find_node_stale_version:
  assumes "split ID_SEP tok = v # kind # parts"
    and "py_int v = Inr n"
    and "n \<noteq> version c"
  shows "find_node c tok = Inr None \<and> get_menu c (Some tok) = Inr None
         \<and> \<not> is_desync (find_node c tok) \<and> \<not> is_desync (get_menu c (Some tok))"
proof -
  have f: "find_node c tok = Inr None"
    using assms by (simp add: find_node_def bind_def)
  have "tok \<noteq> []"
    using assms(1) by (auto simp: split_def)
  then have g: "get_menu c (Some tok) = Inr None"
    using f by (simp add: get_menu_def bind_def)
  show ?thesis using f g by (simp add: is_desync_def)
qed

theorem find_node_stale_version_witness:
  "split ID_SEP ''1@SYM@FOO@0'' = [''1'', ''SYM'', ''FOO'', ''0''] \<and>
   py_int ''1'' = Inr 1 \<and> version session2 = 2 \<and>
   find_node session2 ''1@SYM@FOO@0'' = Inr None \<and>
   get_menu session2 (Some ''1@SYM@FOO@0'') = Inr None"
proof -
  have s: "split ID_SEP ''1@SYM@FOO@0'' = ''1'' # ''SYM'' # [''FOO'', ''0'']"
    by (simp add: split_def ID_SEP_def)
  have i: "py_int ''1'' = Inr 1"
    by (simp add: find_node_defs)
  have v: "(1::int) \<noteq> version session2"
    by (simp add: version_session2)
  show ?thesis
    using find_node_stale_version [OF s i v] s i version_session2 by simp
qed

text \<open>
  C2. A token encoded by a session at version \<open>v\<close> yields no node in a session at
  version \<open>v + 1\<close>: \<open>find_node\<close> returns None (it raises ValueError on the empty token
  that a session without an evaluation hands out).  The same holds for every
  identifier made of the version \<open>v\<close>, a kind and any further parts, whatever the kind.
\<close>

theorem stale_token_yields_no_node:
  assumes "version c' = version c + 1"
  shows "(kconfig c \<noteq> None \<and> node_id c node = Inr tok \<longrightarrow> find_node c' tok = Inr None) \<and>
         (node_id c node = Inr tok \<longrightarrow> find_node c' tok \<noteq> Inr (Some n)) \<and>
         find_node c' (join [ID_SEP] (py_str (version c) # kind # parts)) = Inr None"
proof -
  have ne: "version c \<noteq> version c'" using assms by simp
  have a: "find_node c' tok = Inr None" if k: "kconfig c \<noteq> None" and t: "node_id c node = Inr tok"
  proof -
    obtain kc where kc: "kconfig c = Some kc" using k by auto
    obtain ps where ps: "node_parts kc node = Inr ps"
      and j: "join_values [ID_SEP] (PStr (py_str (version c)) # ps) = Inr tok"
      using t kc by (auto simp: node_id_def bind_def split: sum.splits)
    obtain r where "tok = py_str (version c) @ [ID_SEP] @ r"
      using join_values_strings [OF j node_parts_nonempty [OF ps]] by blast
    then show ?thesis using ne by (simp add: find_node_versioned)
  qed
  have b: "find_node c' tok \<noteq> Inr (Some n)" if t: "node_id c node = Inr tok"
  proof (cases "kconfig c")
    case None
    then have "tok = []" using t by (simp add: node_id_def)
    then show ?thesis by (simp add: find_node_def split_def)
  next
    case (Some kc)
    then show ?thesis using a t by simp
  qed
  have "join [ID_SEP] (py_str (version c) # kind # parts)
          = py_str (version c) @ ID_SEP # join [ID_SEP] (kind # parts)"
    by simp
  then have "find_node c' (join [ID_SEP] (py_str (version c) # kind # parts)) = Inr None"
    using ne by (simp only: find_node_versioned) simp
  then show ?thesis using a b by blast
qed

theorem stale_token_yields_no_node_witness:
  "version session2 = version session1 + 1 \<and>
   kconfig session1 \<noteq> None \<and>
   node_id session1 2 = Inr ''1@MENU@0'' \<and>
   find_node session2 ''1@MENU@0'' = Inr None \<and>
   find_node session2 ''1@MENU@0'' \<noteq> Inr (Some 2) \<and>
   find_node session2 (join [ID_SEP] [py_str (version session1), ''CHOICE'', ''0'']) = Inr None"
proof -
  have v: "version session2 = version session1 + 1"
    by (simp add: version_session1 version_session2)
  have k: "kconfig session1 \<noteq> None"
    by (simp add: example_session_defs)
  have t: "node_id session1 2 = Inr ''1@MENU@0''"
    by (simp add: example_session_defs node_id_def node_parts_def example_heap_def index_def
        join_values_def py_str_def digits.simps digit_char_def char_of_digit ID_SEP_def)
  show ?thesis
    using stale_token_yields_no_node [OF v, of 2 "''1@MENU@0''" 2 "''CHOICE''" "[''0'']"] v k t
    by simp
qed

section \<open>Evaluation of a session\<close>

text \<open>
  C3. In a session whose environment names \<open>ZEPHYR_BASE\<close> (\<open>initialize_env\<close> reads it),
  every call of \<open>parse\<close> returns and increments the version by exactly one, whether
  the engine's run succeeds, raises a parse error or raises anything else.  When the
  run fails the session is not valid.  A parse error becomes one Error diagnostic at the
  engine's current location when that is known, and one command-level Error diagnostic
  at position (0,0) otherwise; any other exception becomes a command-level Error
  diagnostic at position (0,0).
\<close>

theorem parse_increments_version:
  assumes "env c ''ZEPHYR_BASE'' = Some z"
    and "Kconfig_parse run (new_Kconfig (root c)) = (e, k)"
  shows "\<exists>c'. parse run c = Inr c' \<and> version c' = version c + 1 \<and> kconfig c' = Some k \<and>
           (e = None \<longrightarrow> ctx_valid c' = (unique_defined_syms k \<noteq> []) \<and>
              kconfig_diags c' = [] \<and> cmd_diags c' = []) \<and>
           (e \<noteq> None \<longrightarrow> \<not> ctx_valid c') \<and>
           (\<forall>m l. e = Some (KconfigError m) \<and> Kconfig_loc k = Some l \<longrightarrow>
              kconfig_diags c' = [(uri_str (loc_uri l), [Diagnostic_err (error_message m) (loc_range l)])] \<and>
              cmd_diags c' = []) \<and>
           (\<forall>m. e = Some (KconfigError m) \<and> Kconfig_loc k = None \<longrightarrow>
              cmd_diags c' = [Diagnostic_err (error_message m) \<lparr>rstart = \<lparr>line = 0, character = 0\<rparr>, rend = \<lparr>line = 0, character = 0\<rparr>\<rparr>] \<and>
              kconfig_diags c' = []) \<and>
           (\<forall>m. e = Some (EngineException m) \<longrightarrow>
              cmd_diags c' = [Diagnostic_err (''Kconfig failed: '' @ m) \<lparr>rstart = \<lparr>line = 0, character = 0\<rparr>, rend = \<lparr>line = 0, character = 0\<rparr>\<rparr>] \<and>
              kconfig_diags c' = [])"
proof -
  have v: "e \<noteq> None \<Longrightarrow> \<not> valid k"
    using assms(2)
    by (auto simp: Kconfig_parse_def engine_init_def new_Kconfig_def split: prod.splits option.splits)
  have u: "e = None \<Longrightarrow> valid k = (unique_defined_syms k \<noteq> [])"
    using assms(2)
    by (auto simp: Kconfig_parse_def engine_init_def new_Kconfig_def split: prod.splits option.splits if_splits)
  show ?thesis
  proof (cases e)
    case None
    then show ?thesis using assms u
      by (simp add: parse_def initialize_env_def clear_diags_def bind_def ctx_valid_def)
  next
    case (Some x)
    then show ?thesis using assms v
      by (cases x; cases "Kconfig_loc k")
        (simp_all add: parse_def initialize_env_def clear_diags_def bind_def ctx_valid_def
          kconfig_diag_def Position_start_def)
  qed
qed

theorem parse_increments_version_witness:
  "env session0 ''ZEPHYR_BASE'' = Some ''/zephyr'' \<and> version session0 = 0 \<and>
   (case parse engine_syntax_error session0 of
      Inl x \<Rightarrow> False
    | Inr c' \<Rightarrow> version c' = 1 \<and> \<not> ctx_valid c' \<and> cmd_diags c' = [] \<and>
        kconfig_diags c' =
          [(''file:///zephyr/Kconfig'',
            [Diagnostic_err ''unknown keyword confg''
               \<lparr>rstart = \<lparr>line = 2, character = 0\<rparr>, rend = \<lparr>line = 2, character = 99999\<rparr>\<rparr>])]) \<and>
   (case parse engine_no_location session0 of
      Inl x \<Rightarrow> False
    | Inr c' \<Rightarrow> version c' = 1 \<and> \<not> ctx_valid c' \<and> kconfig_diags c' = [] \<and>
        cmd_diags c' =
          [Diagnostic_err ''recursive dependency''
             \<lparr>rstart = \<lparr>line = 0, character = 0\<rparr>, rend = \<lparr>line = 0, character = 0\<rparr>\<rparr>]) \<and>
   (case parse engine_crash session0 of
      Inl x \<Rightarrow> False
    | Inr c' \<Rightarrow> version c' = 1 \<and> \<not> ctx_valid c' \<and> kconfig_diags c' = [] \<and>
        cmd_diags c' =
          [Diagnostic_err ''Kconfig failed: [Errno 2] No such file''
             \<lparr>rstart = \<lparr>line = 0, character = 0\<rparr>, rend = \<lparr>line = 0, character = 0\<rparr>\<rparr>]) \<and>
   (case parse engine_ok session0 of
      Inl x \<Rightarrow> False
    | Inr c' \<Rightarrow> version c' = 1 \<and> ctx_valid c' \<and> kconfig_diags c' = [] \<and> cmd_diags c' = [])"
proof -
  have z: "env session0 ''ZEPHYR_BASE'' = Some ''/zephyr''"
    by (simp add: session0_def example_env_def)
  have v0: "version session0 = 0"
    by (simp add: session0_def)
  have r: "root session0 = ''Kconfig''"
    by (simp add: session0_def)
  define k1 where "k1 = (new_Kconfig ''Kconfig'')\<lparr>linenr := Some 3, srctree := ''/zephyr''\<rparr>"
  define k2 where "k2 = (new_Kconfig ''Kconfig'')\<lparr>filename := [], linenr := None\<rparr>"
  define k3 where "k3 = (new_Kconfig ''Kconfig'')\<lparr>linenr := Some 3\<rparr>"
  define k4 where "k4 = snd (Kconfig_parse engine_ok (new_Kconfig ''Kconfig''))"
  have p1: "Kconfig_parse engine_syntax_error (new_Kconfig (root session0))
              = (Some (KconfigError ''Kconfig:3: error: unknown keyword confg''), k1)"
    by (simp add: r k1_def Kconfig_parse_def engine_init_def engine_syntax_error_def new_Kconfig_def)
  have p2: "Kconfig_parse engine_no_location (new_Kconfig (root session0))
              = (Some (KconfigError ''error: recursive dependency''), k2)"
    by (simp add: r k2_def Kconfig_parse_def engine_init_def engine_no_location_def new_Kconfig_def)
  have p3: "Kconfig_parse engine_crash (new_Kconfig (root session0))
              = (Some (EngineException ''[Errno 2] No such file''), k3)"
    by (simp add: r k3_def Kconfig_parse_def engine_init_def engine_crash_def new_Kconfig_def)
  have p4: "Kconfig_parse engine_ok (new_Kconfig (root session0)) = (None, k4)"
    by (simp add: r k4_def Kconfig_parse_def engine_init_def engine_ok_def new_Kconfig_def)
  have l1: "Kconfig_loc k1 =
      Some \<lparr>loc_uri = uri_file ''/zephyr/Kconfig'',
            loc_range = \<lparr>rstart = \<lparr>line = 2, character = 0\<rparr>, rend = \<lparr>line = 2, character = 99999\<rparr>\<rparr>\<rparr>"
    by (simp add: k1_def Kconfig_loc_def new_Kconfig_def path_join_def)
  have l2: "Kconfig_loc k2 = None"
    by (simp add: k2_def Kconfig_loc_def new_Kconfig_def)
  have u4: "unique_defined_syms k4 \<noteq> []"
    by (simp add: k4_def Kconfig_parse_def engine_init_def engine_ok_def new_Kconfig_def)
  have m1: "error_message ''Kconfig:3: error: unknown keyword confg'' = ''unknown keyword confg''"
    by (simp add: error_message_def skip_location_def is_path_char_def is_word_def is_digit_def
        is_space_def)
  have m2: "error_message ''error: recursive dependency'' = ''recursive dependency''"
    by (simp add: error_message_def skip_location_def is_path_char_def is_word_def is_digit_def
        is_space_def)
  have u: "uri_str (uri_file ''/zephyr/Kconfig'') = ''file:///zephyr/Kconfig''"
    by (simp add: uri_str_def uri_file_def)
  show ?thesis
    using parse_increments_version [OF z p1] parse_increments_version [OF z p2]
      parse_increments_version [OF z p3] parse_increments_version [OF z p4]
      z v0 l1 l2 u4 m1 m2 u
    by auto
qed

section \<open>The lint pass: one diagnostic for an entry\<close>

lemma check_undefined_result:
  "check_undefined f e s = Inr (b, f1) \<Longrightarrow>
     (if b then \<exists>d. f1 = append_diag f d else f1 = f)"
  by (auto simp: check_undefined_def split: if_splits)

lemma check_type_result:
  "check_type f e s = Inr (b, f1) \<Longrightarrow>
     (if b then \<exists>d. f1 = append_diag f d else f1 = f)"
  by (auto simp: check_type_def bind_def Let_def split: if_splits sum.splits)

lemma check_assignment_result:
  "check_assignment w f e s = Inr (b, f1, w1) \<Longrightarrow>
     (if b then \<exists>d. f1 = append_diag f d else f1 = f \<and> w1 = w)"
  by (auto simp: check_assignment_def bind_def split: if_splits sum.splits option.splits prod.splits)

lemma check_visibility_result:
  "check_visibility k f e s = Inr (b, f1) \<Longrightarrow>
     (if b then \<exists>d. f1 = append_diag f d else f1 = f)"
  by (auto simp: check_visibility_def split: if_splits)

lemma check_defaults_result:
  "check_defaults f e s = Inr (b, f1) \<Longrightarrow>
     (if b then \<exists>d. f1 = append_diag f d else f1 = f)"
  by (auto simp: check_defaults_def split: if_splits)

lemma check_multiple_assignments_result:
  "check_multiple_assignments f e all = Inr (b, f1) \<Longrightarrow>
     (if b then \<exists>d. f1 = append_diag f d else f1 = f)"
  by (auto simp: check_multiple_assignments_def bind_def Let_def split: if_splits sum.splits)

lemma append_diag_diags: "file_diags (append_diag f d) = file_diags f @ [d]"
  by (simp add: append_diag_def)

lemma run_checks_at_most_one:
  assumes "run_checks w k all f e s = Inr (f', w')"
  shows "f' = f \<or> (\<exists>d. f' = append_diag f d)"
proof -
  obtain r1 f1 where c1: "check_undefined f e s = Inr (r1, f1)"
    using assms by (auto simp: run_checks_def bind_def split: sum.splits)
  show ?thesis
  proof (cases r1)
    case True
    then show ?thesis using assms c1 check_undefined_result [OF c1]
      by (auto simp: run_checks_def bind_def)
  next
    case n1: False
    then have e1: "f1 = f" using check_undefined_result [OF c1] by simp
    obtain r2 f2 where c2: "check_type f e s = Inr (r2, f2)"
      using assms c1 n1 e1 by (auto simp: run_checks_def bind_def split: sum.splits)
    show ?thesis
    proof (cases r2)
      case True
      then show ?thesis using assms c1 n1 e1 c2 check_type_result [OF c2]
        by (auto simp: run_checks_def bind_def)
    next
      case n2: False
      then have e2: "f2 = f" using check_type_result [OF c2] by simp
      obtain r3 f3 w3 where c3: "check_assignment w f e s = Inr (r3, f3, w3)"
        using assms c1 n1 e1 c2 n2 e2 by (auto simp: run_checks_def bind_def split: sum.splits)
      show ?thesis
      proof (cases r3)
        case True
        then show ?thesis using assms c1 n1 e1 c2 n2 e2 c3 check_assignment_result [OF c3]
          by (auto simp: run_checks_def bind_def)
      next
        case n3: False
        then have e3: "f3 = f" "w3 = w" using check_assignment_result [OF c3] by simp_all
        obtain r4 f4 where c4: "check_visibility k f e s = Inr (r4, f4)"
          using assms c1 n1 e1 c2 n2 e2 c3 n3 e3
          by (auto simp: run_checks_def bind_def split: sum.splits)
        show ?thesis
        proof (cases r4)
          case True
          then show ?thesis
            using assms c1 n1 e1 c2 n2 e2 c3 n3 e3 c4 check_visibility_result [OF c4]
            by (auto simp: run_checks_def bind_def)
        next
          case n4: False
          then have e4: "f4 = f" using check_visibility_result [OF c4] by simp
          obtain r5 f5 where c5: "check_defaults f e s = Inr (r5, f5)"
            using assms c1 n1 e1 c2 n2 e2 c3 n3 e3 c4 n4 e4
            by (auto simp: run_checks_def bind_def split: sum.splits)
          show ?thesis
          proof (cases r5)
            case True
            then show ?thesis
              using assms c1 n1 e1 c2 n2 e2 c3 n3 e3 c4 n4 e4 c5 check_defaults_result [OF c5]
              by (auto simp: run_checks_def bind_def)
          next
            case n5: False
            then have e5: "f5 = f" using check_defaults_result [OF c5] by simp
            obtain r6 f6 where c6: "check_multiple_assignments f e all = Inr (r6, f6)"
              using assms c1 n1 e1 c2 n2 e2 c3 n3 e3 c4 n4 e4 c5 n5 e5
              by (auto simp: run_checks_def bind_def split: sum.splits)
            then show ?thesis
              using assms c1 n1 e1 c2 n2 e2 c3 n3 e3 c4 n4 e4 c5 n5 e5
                check_multiple_assignments_result [OF c6]
              by (cases r6) (auto simp: run_checks_def bind_def)
          qed
        qed
      qed
    qed
  qed
qed

text \<open>
  C4. The chain of checks for one entry adds at most one diagnostic to the file, and
  the checks run in the order undefined, type, assignment, visibility, defaults,
  multiple assignments: the first check that returns True decides the result, which is
  the file with exactly that check's diagnostic added; the checks after it are not run.
\<close>

theorem first_applicable_check_only:
  "(run_checks w k all f e s = Inr (f', w') \<longrightarrow>
      (\<exists>ds. file_diags f' = file_diags f @ ds \<and> length ds \<le> 1)) \<and>
   (check_undefined f e s = Inr (True, f1) \<longrightarrow>
      run_checks w k all f e s = Inr (f1, w) \<and>
      length (file_diags f1) = Suc (length (file_diags f))) \<and>
   (check_undefined f e s = Inr (False, f) \<and> check_type f e s = Inr (True, f2) \<longrightarrow>
      run_checks w k all f e s = Inr (f2, w) \<and>
      length (file_diags f2) = Suc (length (file_diags f))) \<and>
   (check_undefined f e s = Inr (False, f) \<and> check_type f e s = Inr (False, f) \<and>
    check_assignment w f e s = Inr (True, f3, w3) \<longrightarrow>
      run_checks w k all f e s = Inr (f3, w3) \<and>
      length (file_diags f3) = Suc (length (file_diags f))) \<and>
   (check_undefined f e s = Inr (False, f) \<and> check_type f e s = Inr (False, f) \<and>
    check_assignment w f e s = Inr (False, f, w) \<and> check_visibility k f e s = Inr (True, f4) \<longrightarrow>
      run_checks w k all f e s = Inr (f4, w) \<and>
      length (file_diags f4) = Suc (length (file_diags f))) \<and>
   (check_undefined f e s = Inr (False, f) \<and> check_type f e s = Inr (False, f) \<and>
    check_assignment w f e s = Inr (False, f, w) \<and> check_visibility k f e s = Inr (False, f) \<and>
    check_defaults f e s = Inr (True, f5) \<longrightarrow>
      run_checks w k all f e s = Inr (f5, w) \<and>
      length (file_diags f5) = Suc (length (file_diags f))) \<and>
   (check_undefined f e s = Inr (False, f) \<and> check_type f e s = Inr (False, f) \<and>
    check_assignment w f e s = Inr (False, f, w) \<and> check_visibility k f e s = Inr (False, f) \<and>
    check_defaults f e s = Inr (False, f) \<and> check_multiple_assignments f e all = Inr (r6, f6) \<longrightarrow>
      run_checks w k all f e s = Inr (f6, w) \<and>
      length (file_diags f6) = (if r6 then Suc (length (file_diags f)) else length (file_diags f)))"
proof -
  have a: "\<exists>ds. file_diags f' = file_diags f @ ds \<and> length ds \<le> 1"
    if "run_checks w k all f e s = Inr (f', w')"
    using run_checks_at_most_one [OF that] by (auto simp: append_diag_diags)
  have l1: "length (file_diags f1) = Suc (length (file_diags f))"
    if "check_undefined f e s = Inr (True, f1)"
    using check_undefined_result [OF that] by (auto simp: append_diag_diags)
  have l2: "length (file_diags f2) = Suc (length (file_diags f))"
    if "check_type f e s = Inr (True, f2)"
    using check_type_result [OF that] by (auto simp: append_diag_diags)
  have l3: "length (file_diags f3) = Suc (length (file_diags f))"
    if "check_assignment w f e s = Inr (True, f3, w3)"
    using check_assignment_result [OF that] by (auto simp: append_diag_diags)
  have l4: "length (file_diags f4) = Suc (length (file_diags f))"
    if "check_visibility k f e s = Inr (True, f4)"
    using check_visibility_result [OF that] by (auto simp: append_diag_diags)
  have l5: "length (file_diags f5) = Suc (length (file_diags f))"
    if "check_defaults f e s = Inr (True, f5)"
    using check_defaults_result [OF that] by (auto simp: append_diag_diags)
  have l6: "length (file_diags f6) = (if r6 then Suc (length (file_diags f)) else length (file_diags f))"
    if "check_multiple_assignments f e all = Inr (r6, f6)"
    using check_multiple_assignments_result [OF that] by (auto simp: append_diag_diags split: if_splits)
  show ?thesis
    using a l1 l2 l3 l4 l5 l6 by (simp add: run_checks_def bind_def)
qed

section \<open>The example lint pass, evaluated\<close>

lemma example_all_entries_eq:
  "example_all_entries
     = example_entry ''/boards/nrf52dk/nrf52dk_defconfig'' 0 0 ''SERIAL'' ''y'' # prj_entries 1"
  by code_simp

lemma file_entries_eq:
  "map_sum id fst (entries world_after_all_entries prj_file) = Inr (prj_entries 9)"
  by code_simp

lemma entry_at_eq: "i < 8 \<Longrightarrow> entry_at i = prj_entries 9 ! i"
  using file_entries_eq
  by (auto simp: entry_at_def split: sum.splits)

lemma lint_example_report:
  "lint_report (lint example_world loaded_session) =
     Some [(0, WARNING, [],
            ''CONFIG_FOO was assigned the value y, but got the value n. Missing dependencies:\<newline>BAR'',
            [''Enable CONFIG_BAR to resolve dependency'', ''Remove entry'']),
           (1, HINT, [UNNECESSARY],
            ''BAZ set more than once. Old value '' @ quoted ''1'' @ '', new value '' @ quoted ''1'' @ ''.'',
            [''Remove redundant entry'']),
           (2, WARNING, [],
            ''BAZ set more than once. Old value '' @ quoted ''1'' @ '', new value '' @ quoted ''2'' @ ''.'',
            []),
           (4, ERROR, [], ''Undefined symbol CONFIG_NOPE'', []),
           (5, ERROR, [], ''Invalid type. Expected int'', [''Convert value to int'']),
           (6, WARNING, [], ''Symbol CONFIG_HIDDEN cannot be set (has no prompt)'', [''Remove entry'']),
           (7, HINT, [UNNECESSARY], ''Value is '' @ quoted ''zephyr'' @ '' by default'',
            [''Remove redundant entry''])]"
  by code_simp

lemma entry_at_simps:
  "entry_at 0 = prj_entries 9 ! 0" "entry_at 1 = prj_entries 9 ! 1" "entry_at 2 = prj_entries 9 ! 2"
  "entry_at 3 = prj_entries 9 ! 3" "entry_at 4 = prj_entries 9 ! 4" "entry_at 5 = prj_entries 9 ! 5"
  "entry_at 6 = prj_entries 9 ! 6" "entry_at 7 = prj_entries 9 ! 7"
  using entry_at_eq by simp_all

lemma fired_obtain: "fired r \<Longrightarrow> \<exists>f. r = Inr (True, f)"
  by (auto simp: fired_def split: sum.splits)

lemma example_available: "doc_available world_after_all_entries prj_file"
  by code_simp

lemma example_nope:
  "fired (check_undefined prj_file (entry_at 4) (symbol_named ''NOPE'')) \<and>
   fired (check_type prj_file (entry_at 4) (symbol_named ''NOPE''))"
  unfolding entry_at_simps by code_simp

lemma example_num:
  "check_undefined prj_file (entry_at 5) (symbol_named ''NUM'') = Inr (False, prj_file) \<and>
   fired (check_type prj_file (entry_at 5) (symbol_named ''NUM''))"
  unfolding entry_at_simps by code_simp

lemma example_baz:
  "check_undefined prj_file (entry_at 2) (symbol_named ''BAZ'') = Inr (False, prj_file) \<and>
   check_type prj_file (entry_at 2) (symbol_named ''BAZ'') = Inr (False, prj_file) \<and>
   check_visibility loaded_kconfig prj_file (entry_at 2) (symbol_named ''BAZ'') = Inr (False, prj_file) \<and>
   check_defaults prj_file (entry_at 2) (symbol_named ''BAZ'') = Inr (False, prj_file) \<and>
   fired (check_multiple_assignments prj_file (entry_at 2) example_all_entries)"
  unfolding entry_at_simps example_all_entries_eq by code_simp

lemma example_baz_assignment:
  "check_assignment w prj_file (entry_at 2) (symbol_named ''BAZ'') = Inr (False, prj_file, w)"
  by (simp add: check_assignment_def symbol_named_def loaded_syms_def requested_value_def
      assignment_message_def missing_deps_def no_dep_def bind_def HINT_def)

lemma example_foo:
  "requested_value (symbol_named ''FOO'') = Inr (UStr ''y'') \<and>
   str_value (symbol_named ''FOO'') = ''n'' \<and>
   missing_deps (symbol_named ''FOO'') = [SymExpr bar_dep] \<and>
   sym_name (symbol_named ''FOO'') = ''FOO'' \<and>
   raw (entry_at 0) = ''y'' \<and>
   \<not> fired (check_undefined prj_file (entry_at 0) (symbol_named ''FOO'')) \<and>
   \<not> fired (check_type prj_file (entry_at 0) (symbol_named ''FOO''))"
  unfolding entry_at_simps by code_simp

lemma example_qux:
  "requested_value (symbol_named ''QUX'') = Inr (UStr ''y'') \<and>
   str_value (symbol_named ''QUX'') = ''n'' \<and>
   missing_deps (symbol_named ''QUX'') = [] \<and>
   \<not> fired (check_undefined prj_file (entry_at 3) (symbol_named ''QUX'')) \<and>
   \<not> fired (check_type prj_file (entry_at 3) (symbol_named ''QUX''))"
  unfolding entry_at_simps by code_simp

lemma example_first_baz:
  "map name (filter (\<lambda>x. name x = ''BAZ'') example_all_entries) = [''BAZ'', ''BAZ''] \<and>
   name (entry_at 1) = ''BAZ'' \<and>
   loc (entry_at 1) = loc (hd (filter (\<lambda>x. name x = ''BAZ'') example_all_entries)) \<and>
   loc_ref (entry_at 1) = 10 \<and>
   loc_ref (hd (filter (\<lambda>x. name x = ''BAZ'') example_all_entries)) = 2 \<and>
   \<not> entry_eq (hd (filter (\<lambda>x. name x = ''BAZ'') example_all_entries)) (entry_at 1) \<and>
   fired (check_multiple_assignments prj_file (entry_at 1) example_all_entries)"
  unfolding entry_at_simps example_all_entries_eq by code_simp


theorem first_applicable_check_only_witness:
  "fired (check_undefined prj_file (entry_at 4) (symbol_named ''NOPE'')) \<and>
   fired (check_type prj_file (entry_at 4) (symbol_named ''NOPE'')) \<and>
   run_checks world_after_all_entries loaded_kconfig example_all_entries prj_file (entry_at 4) (symbol_named ''NOPE'')
     = after_check (check_undefined prj_file (entry_at 4) (symbol_named ''NOPE'')) world_after_all_entries \<and>
   length (diags_after (run_checks world_after_all_entries loaded_kconfig example_all_entries prj_file
                          (entry_at 4) (symbol_named ''NOPE''))) = 1 \<and>
   fired (check_type prj_file (entry_at 5) (symbol_named ''NUM'')) \<and>
   run_checks world_after_all_entries loaded_kconfig example_all_entries prj_file (entry_at 5) (symbol_named ''NUM'')
     = after_check (check_type prj_file (entry_at 5) (symbol_named ''NUM'')) world_after_all_entries \<and>
   fired (check_multiple_assignments prj_file (entry_at 2) example_all_entries) \<and>
   run_checks world_after_all_entries loaded_kconfig example_all_entries prj_file (entry_at 2) (symbol_named ''BAZ'')
     = after_check (check_multiple_assignments prj_file (entry_at 2) example_all_entries) world_after_all_entries \<and>
   length (diags_after (run_checks world_after_all_entries loaded_kconfig example_all_entries prj_file
                          (entry_at 2) (symbol_named ''BAZ''))) = 1"
proof -
  let ?w = world_after_all_entries
  obtain f1 where c1: "check_undefined prj_file (entry_at 4) (symbol_named ''NOPE'') = Inr (True, f1)"
    using fired_obtain example_nope by blast
  obtain f2 where c2: "check_type prj_file (entry_at 5) (symbol_named ''NUM'') = Inr (True, f2)"
    using fired_obtain example_num by blast
  obtain f6 where c6: "check_multiple_assignments prj_file (entry_at 2) example_all_entries = Inr (True, f6)"
    using fired_obtain example_baz by blast
  have e: "file_diags prj_file = []"
    by (simp add: prj_file_def new_ConfFile_def)
  have r1: "run_checks ?w loaded_kconfig example_all_entries prj_file (entry_at 4) (symbol_named ''NOPE'') = Inr (f1, ?w)
            \<and> length (file_diags f1) = Suc (length (file_diags prj_file))"
    using first_applicable_check_only
      [of ?w loaded_kconfig example_all_entries prj_file "entry_at 4" "symbol_named ''NOPE''" _ _ f1]
      c1 by blast
  have r2: "run_checks ?w loaded_kconfig example_all_entries prj_file (entry_at 5) (symbol_named ''NUM'') = Inr (f2, ?w)"
    using first_applicable_check_only
      [of ?w loaded_kconfig example_all_entries prj_file "entry_at 5" "symbol_named ''NUM''" _ _ _ f2]
      c2 example_num by blast
  have r6: "run_checks ?w loaded_kconfig example_all_entries prj_file (entry_at 2) (symbol_named ''BAZ'') = Inr (f6, ?w)
            \<and> length (file_diags f6) = (if True then Suc (length (file_diags prj_file)) else length (file_diags prj_file))"
    using first_applicable_check_only
      [of ?w loaded_kconfig example_all_entries prj_file "entry_at 2" "symbol_named ''BAZ''" _ _ _ _ _ _ _ _ True f6]
      c6 example_baz example_baz_assignment [of ?w] by blast
  show ?thesis
    using example_nope example_num example_baz c1 c2 c6 r1 r2 r6 e
    by (simp add: after_check_def diags_after_def)
qed

section \<open>The lint pass: assignments that are not honoured\<close>

lemma DocumentStore_get_again:
  assumes "DocumentStore_get st fs u True = Inr (Some d, st')"
  shows "DocumentStore_get st' fs u True = Inr (Some d, st')"
proof (cases "providers st (scheme u)")
  case (Some p)
  then show ?thesis using assms by (auto simp: DocumentStore_get_def)
next
  case None
  show ?thesis
  proof (cases "docs st (uri_str u)")
    case (Some d')
    then show ?thesis using assms None by (auto simp: DocumentStore_get_def)
  next
    case no_doc: None
    then show ?thesis using assms None
      by (auto simp: DocumentStore_get_def from_disk_def Let_def split: sum.splits if_splits)
  qed
qed

lemma entries_available:
  assumes "doc_available w f"
  shows "\<exists>es w'. entries w f = Inr (es, w') \<and> doc_available w' f"
proof -
  obtain d st where g: "DocumentStore_get (store w) (disk w) (file_uri f) True = Inr (Some d, st)"
    using assms by (auto simp: doc_available_def split: sum.splits option.splits prod.splits)
  obtain es r where l: "entries_of_lines (file_uri f) 0 (next_ref w) (lines d) = (es, r)"
    by (cases "entries_of_lines (file_uri f) 0 (next_ref w) (lines d)") auto
  have "entries w f = Inr (es, w\<lparr>store := st, next_ref := r\<rparr>)"
    using g l by (simp add: entries_def bind_def)
  moreover have "doc_available (w\<lparr>store := st, next_ref := r\<rparr>) f"
    using DocumentStore_get_again [OF g] by (simp add: doc_available_def)
  ultimately show ?thesis by blast
qed

lemma dep_edits_total:
  "doc_available w f \<Longrightarrow> \<exists>r w'. dep_edits w f e ds = Inr (r, w')"
proof (induction w f e ds rule: dep_edits.induct)
  case (2 w f e d ds)
  show ?case
  proof (cases "dep_type d = BOOL")
    case True
    obtain es w1 where en: "entries w f = Inr (es, w1)" and av: "doc_available w1 f"
      using entries_available [OF 2(3)] by blast
    obtain r w2 where "dep_edits w1 f e ds = Inr (r, w2)"
      using 2(1) [OF True av] by blast
    then show ?thesis using True en by (simp add: bind_def)
  next
    case False
    then show ?thesis using 2 by simp
  qed
qed simp_all

lemma foldl_add_action:
  "actions (foldl add_action d as) = actions d @ as \<and>
   message (foldl add_action d as) = message d \<and>
   severity (foldl add_action d as) = severity d \<and>
   diag_range (foldl add_action d as) = diag_range d \<and>
   tags (foldl add_action d as) = tags d"
  by (induction as arbitrary: d) (simp_all add: add_action_def)

lemma assignment_diag_warning:
  "sev = WARNING \<Longrightarrow>
   message (assignment_diag f e msg sev deps edits)
     = msg @ '' Missing dependencies:\<newline>'' @ join '' && '' (map expr_str deps) \<and>
   severity (assignment_diag f e msg sev deps edits) = WARNING \<and>
   diag_range (assignment_diag f e msg sev deps edits) = entry_range e \<and>
   tags (assignment_diag f e msg sev deps edits) = [] \<and>
   actions (assignment_diag f e msg sev deps edits)
     = enable_actions f edits @ [entry_remove e ''Remove entry'']"
  by (simp add: assignment_diag_def Let_def foldl_add_action add_action_def new_Diagnostic_def
      WARNING_def HINT_def del: foldl_append)

text \<open>
  C5 as stated: an entry whose value did not take effect gets a Warning, with the
  dependency text added only when a dependency is unmet.  The entry \<open>CONFIG_QUX=y\<close>
  passes the first two checks, the value in effect is \<open>n\<close>, and no dependency of \<open>QUX\<close>
  is unmet: the assignment check returns without a diagnostic, and the lint pass leaves
  no diagnostic on the entry's line.
\<close>

theorem unmet_dependency_needed_counterexample:
  "requested_value (symbol_named ''QUX'') = Inr (UStr ''y'') \<and>
   str_value (symbol_named ''QUX'') = ''n'' \<and>
   \<not> fired (check_undefined prj_file (entry_at 3) (symbol_named ''QUX'')) \<and>
   \<not> fired (check_type prj_file (entry_at 3) (symbol_named ''QUX'')) \<and>
   \<not> fired (check_assignment world_after_all_entries prj_file (entry_at 3) (symbol_named ''QUX'')) \<and>
   lint_report (lint example_world loaded_session) \<noteq> None \<and>
   report_on_line 3 (lint example_world loaded_session) = []"
proof -
  have "check_assignment world_after_all_entries prj_file (entry_at 3) (symbol_named ''QUX'')
          = Inr (False, prj_file, world_after_all_entries)"
    using example_qux
    by (simp add: check_assignment_def assignment_message_def bind_def)
  then show ?thesis
    using example_qux by (simp add: fired_def report_on_line_def lint_example_report)
qed

text \<open>
  C5 as amended: for an entry whose requested value differs from the value in effect,
  the assignment check emits a diagnostic only when the symbol has an unmet dependency:
  then it is a Warning on the entry's name, reporting the effective value when there is
  one and saying the symbol couldn't be set otherwise, always followed by the missing
  dependencies, with the actions that enable them and a final action that removes the
  entry.  When no dependency is unmet the check emits nothing and the later checks run.
\<close>

theorem check_assignment_needs_missing_dependency:
  assumes "requested_value s = Inr uv"
    and "uv \<noteq> UStr (str_value s)"
    and "doc_available w f"
  shows "(missing_deps s = [] \<longrightarrow> check_assignment w f e s = Inr (False, f, w)) \<and>
         (missing_deps s \<noteq> [] \<longrightarrow>
            (\<exists>d edits w'.
               check_assignment w f e s = Inr (True, append_diag f d, w') \<and>
               severity d = WARNING \<and>
               diag_range d = entry_range e \<and>
               message d =
                 (if str_value s \<noteq> []
                  then ''CONFIG_'' @ sym_name s @ '' was assigned the value '' @ raw e
                         @ '', but got the value '' @ str_value s @ ''.''
                  else ''CONFIG_'' @ sym_name s @ '' couldn'' @ [CHR 0x27] @ ''t be set.'')
                 @ '' Missing dependencies:\<newline>''
                 @ join '' && '' (map expr_str (missing_deps s)) \<and>
               actions d = enable_actions f edits @ [entry_remove e ''Remove entry'']))"
proof -
  obtain msg where m: "assignment_message e s uv = Some (msg, WARNING)"
    and mt: "msg = (if str_value s \<noteq> []
                  then ''CONFIG_'' @ sym_name s @ '' was assigned the value '' @ raw e
                         @ '', but got the value '' @ str_value s @ ''.''
                  else ''CONFIG_'' @ sym_name s @ '' couldn'' @ [CHR 0x27] @ ''t be set.'')"
    using assms(2) by (auto simp: assignment_message_def)
  have a: "check_assignment w f e s = Inr (False, f, w)" if "missing_deps s = []"
    using that assms(1) m by (simp add: check_assignment_def bind_def)
  have b: "\<exists>d edits w'.
               check_assignment w f e s = Inr (True, append_diag f d, w') \<and>
               severity d = WARNING \<and> diag_range d = entry_range e \<and>
               message d = msg @ '' Missing dependencies:\<newline>''
                 @ join '' && '' (map expr_str (missing_deps s)) \<and>
               actions d = enable_actions f edits @ [entry_remove e ''Remove entry'']"
    if ne: "missing_deps s \<noteq> []"
  proof -
    obtain edits w' where de: "dep_edits w f e (missing_deps s) = Inr (edits, w')"
      using dep_edits_total [OF assms(3)] by blast
    have "check_assignment w f e s
            = Inr (True, append_diag f (assignment_diag f e msg WARNING (missing_deps s) edits), w')"
      using ne assms(1) m de by (simp add: check_assignment_def bind_def)
    then show ?thesis
      using assignment_diag_warning [of WARNING f e msg "missing_deps s" edits] by blast
  qed
  show ?thesis using a b mt by blast
qed

theorem check_assignment_needs_missing_dependency_witness:
  "requested_value (symbol_named ''FOO'') = Inr (UStr ''y'') \<and>
   str_value (symbol_named ''FOO'') = ''n'' \<and>
   doc_available world_after_all_entries prj_file \<and>
   missing_deps (symbol_named ''FOO'') = [SymExpr bar_dep] \<and>
   fired (check_assignment world_after_all_entries prj_file (entry_at 0) (symbol_named ''FOO'')) \<and>
   missing_deps (symbol_named ''QUX'') = [] \<and>
   check_assignment world_after_all_entries prj_file (entry_at 3) (symbol_named ''QUX'')
     = Inr (False, prj_file, world_after_all_entries)"
proof -
  let ?w = world_after_all_entries
  have ne: "UStr ''y'' \<noteq> UStr (str_value (symbol_named ''FOO''))"
    using example_foo by simp
  have nq: "UStr ''y'' \<noteq> UStr (str_value (symbol_named ''QUX''))"
    using example_qux by simp
  have rf: "requested_value (symbol_named ''FOO'') = Inr (UStr ''y'')"
    using example_foo by simp
  have rq: "requested_value (symbol_named ''QUX'') = Inr (UStr ''y'')"
    using example_qux by simp
  obtain d edits w' where
    c: "check_assignment ?w prj_file (entry_at 0) (symbol_named ''FOO'') = Inr (True, append_diag prj_file d, w')"
    using check_assignment_needs_missing_dependency [OF rf ne example_available, of "entry_at 0"] example_foo
    by auto
  have q: "check_assignment ?w prj_file (entry_at 3) (symbol_named ''QUX'') = Inr (False, prj_file, ?w)"
    using check_assignment_needs_missing_dependency [OF rq nq example_available, of "entry_at 3"] example_qux
    by simp
  show ?thesis
    using example_foo example_qux example_available c q by (simp add: fired_def)
qed

section \<open>The lint pass: duplicate assignments\<close>

text \<open>
  Every call of \<open>entries\<close> gives its entries Location objects that did not exist
  before.  So an entry read after the full list of entries was put together is never
  equal to an entry of that list.
\<close>

lemma entries_of_lines_refs:
  "entries_of_lines u n r ls = (es, r') \<Longrightarrow>
   r \<le> r' \<and> list_all (\<lambda>e. r \<le> loc_ref e \<and> loc_ref e < r') es"
proof (induction ls arbitrary: n r es r')
  case Nil
  then show ?case by simp
next
  case (Cons l ls)
  show ?case
  proof (cases "match_entry l")
    case None
    then show ?thesis using Cons by simp
  next
    case (Some m)
    obtain s1 e1 nm s3 e3 v where m: "m = (s1, e1, nm, s3, e3, v)"
      by (cases m) auto
    obtain es1 r1 where t: "entries_of_lines u (n + 1) (Suc r) ls = (es1, r1)"
      by (cases "entries_of_lines u (n + 1) (Suc r) ls") auto
    have ih: "Suc r \<le> r1 \<and> list_all (\<lambda>e. Suc r \<le> loc_ref e \<and> loc_ref e < r1) es1"
      using Cons.IH [OF t] .
    have "r' = r1" and es: "es = new_ConfEntry nm
                  \<lparr>loc_uri = u,
                   loc_range = \<lparr>rstart = \<lparr>line = n, character = int s1\<rparr>,
                                rend = \<lparr>line = n, character = int e1\<rparr>\<rparr>\<rparr>
                  r v
                  \<lparr>rstart = \<lparr>line = n, character = int s3\<rparr>,
                   rend = \<lparr>line = n, character = int e3\<rparr>\<rparr> # es1"
      using Cons.prems Some m t by simp_all
    then show ?thesis using ih
      by (auto simp: new_ConfEntry_def list_all_iff)
  qed
qed

lemma entries_refs:
  assumes "entries w f = Inr (es, w')"
  shows "next_ref w \<le> next_ref w' \<and> list_all (\<lambda>e. next_ref w \<le> loc_ref e \<and> loc_ref e < next_ref w') es"
proof -
  obtain d st where g: "DocumentStore_get (store w) (disk w) (file_uri f) True = Inr (Some d, st)"
    using assms
    by (auto simp: entries_def bind_def split: sum.splits option.splits prod.splits)
  obtain es1 r1 where l: "entries_of_lines (file_uri f) 0 (next_ref w) (lines d) = (es1, r1)"
    by (cases "entries_of_lines (file_uri f) 0 (next_ref w) (lines d)") auto
  have "es = es1" "next_ref w' = r1"
    using assms g l by (auto simp: entries_def bind_def)
  then show ?thesis using entries_of_lines_refs [OF l] by simp
qed

lemma entries_of_files_refs:
  "entries_of_files w fs = Inr (es, w') \<Longrightarrow>
   next_ref w \<le> next_ref w' \<and> list_all (\<lambda>e. loc_ref e < next_ref w') es"
proof (induction fs arbitrary: w es)
  case Nil
  then show ?case by simp
next
  case (Cons f fs)
  obtain es1 w1 es2 where a: "entries w f = Inr (es1, w1)"
    and b: "entries_of_files w1 fs = Inr (es2, w')" and c: "es = es1 @ es2"
    using Cons.prems by (auto simp: bind_def split: sum.splits prod.splits)
  have "next_ref w1 \<le> next_ref w'" "list_all (\<lambda>e. loc_ref e < next_ref w') es2"
    using Cons.IH [OF b] by simp_all
  then show ?case using entries_refs [OF a] c
    by (auto simp: list_all_iff)
qed

lemma entries_read_later_differ:
  assumes "all_entries w c = Inr (all, w1)"
    and "next_ref w1 \<le> next_ref w2"
    and "entries w2 f = Inr (es, w3)"
    and "x \<in> set all" and "e \<in> set es"
  shows "\<not> entry_eq x e"
proof -
  have "loc_ref x < next_ref w1"
    using entries_of_files_refs [of w "board_conf_file (board c) # conf_files c" all w1] assms(1,4)
    by (simp add: all_entries_def list_all_iff)
  moreover have "next_ref w2 \<le> loc_ref e"
    using entries_refs [OF assms(3)] assms(5) by (auto simp: list_all_iff)
  ultimately show ?thesis using assms(2) by (simp add: entry_eq_def)
qed

text \<open>
  C6. The first occurrence of a name that is assigned twice is to get no duplicate
  diagnostic.  In the example \<open>BAZ\<close> is assigned on lines 1 and 2.  The entry of line 1
  is the first occurrence, but it is not equal to the first matching entry of the full
  list: the two were read by different calls of \<open>entries\<close> and have different Location
  objects.  So the check fires for it, comparing the entry with itself: the lint pass
  puts a Hint on line 1 that says the value 1 replaces the value 1 and offers to remove
  the entry.  The second occurrence gets the Warning of the claim.
\<close>

theorem first_occurrence_gets_duplicate_diagnostic:
  "map name (filter (\<lambda>x. name x = ''BAZ'') example_all_entries) = [''BAZ'', ''BAZ''] \<and>
   name (entry_at 1) = ''BAZ'' \<and>
   loc (entry_at 1) = loc (hd (filter (\<lambda>x. name x = ''BAZ'') example_all_entries)) \<and>
   \<not> entry_eq (hd (filter (\<lambda>x. name x = ''BAZ'') example_all_entries)) (entry_at 1) \<and>
   fired (check_multiple_assignments prj_file (entry_at 1) example_all_entries) \<and>
   report_on_line 1 (lint example_world loaded_session)
     = [(HINT, [UNNECESSARY],
         ''BAZ set more than once. Old value '' @ quoted ''1'' @ '', new value '' @ quoted ''1'' @ ''.'',
         [''Remove redundant entry''])] \<and>
   report_on_line 2 (lint example_world loaded_session)
     = [(WARNING, [],
         ''BAZ set more than once. Old value '' @ quoted ''1'' @ '', new value '' @ quoted ''2'' @ ''.'',
         [])]"
  using example_first_baz by (simp add: report_on_line_def lint_example_report)

section \<open>Failures inside request handlers\<close>

lemmas example_server_defs =
  example_server_def handle_def dispatch_def handlers_def recv_def rsp_def send_def param_def
  bind_def

text \<open>
  C9. A failure raised inside a request handler is to become an error response or a
  diagnostic, and is not to end the dispatch loop.  A \<open>kconfig/search\<close> request that
  names a session the server does not have raises KeyError in the handler;
  \<open>handle\<close> raises it again, no response is written, and the loop ends with the
  exception, leaving the next request unanswered.  The same happens to the RPCError
  that \<open>kconfig/setVal\<close> raises for an unknown symbol.  A request for a method without
  handler, which raises nothing, is answered with an error response, and a
  \<open>kconfig/setMenu\<close> request with a token of a superseded version is answered with
  an empty result.
\<close>

theorem handler_exception_ends_loop:
  "ctx example_server ''file:///other/build'' = None \<and>
   handle bool_set_value no_unset_value Map.empty
       (recv example_server search_unknown_session) search_unknown_session = Inl KeyError \<and>
   loop bool_set_value no_unset_value Map.empty example_server
       [search_unknown_session, unknown_method] = Inl KeyError \<and>
   handle bool_set_value no_unset_value Map.empty
       (recv example_server setval_unknown_symbol) setval_unknown_symbol
     = Inl (RPCError UNKNOWN_NODE ''Unknown symbol NOSUCH'') \<and>
   loop bool_set_value no_unset_value Map.empty example_server
       [setval_unknown_symbol, unknown_method] = Inl (RPCError UNKNOWN_NODE ''Unknown symbol NOSUCH'') \<and>
   map_sum id sent (loop bool_set_value no_unset_value Map.empty example_server [unknown_method])
     = Inr [SentResponse 10 NoReply
              (Some (METHOD_NOT_FOUND, ''Unknown method '' @ quoted ''kconfig/nothing''))] \<and>
   map_sum id sent (loop bool_set_value no_unset_value Map.empty example_server [set_menu_stale])
     = Inr [SentResponse 9 NoReply None]"
  by (simp add: example_server_defs search_unknown_session_def setval_unknown_symbol_def
      unknown_method_def set_menu_stale_def handle_search_def handle_setval_def handle_set_menu_def
      ctx_set_def quoted_def get_menu_def find_node_defs example_session_defs)

section \<open>Setting a value\<close>

lemma parse_modified: "parse run c0 = Inr c \<Longrightarrow> modified c = Some []"
  by (auto simp: parse_def bind_def clear_diags_def kconfig_diag_def Let_def
      split: sum.splits prod.splits option.splits engine_exn.splits)

text \<open>
  C10. In a session on which \<open>parse\<close> has run (its \<open>modified\<close> attribute is as \<open>parse\<close>
  left it), a \<open>kconfig/setVal\<close> request for a known symbol raises AttributeError when it
  supplies a value that the symbol accepts; it completes when the value is rejected and
  when the value is omitted.
\<close>

theorem setval_accepted_value_raises:
  assumes "parse run c0 = Inr c1"
    and "modified c = modified c1"
    and "ctx srv cid = Some c"
    and "kconfig c = Some k"
    and "syms k n = Some s"
    and "p ''ctx'' = Some cid"
    and "p ''name'' = Some n"
  shows "(p ''val'' = Some v \<and> fst (sv k n v) \<longrightarrow>
            handle_setval sv uv srv p = Inl AttributeError) \<and>
         (p ''val'' = Some v \<and> \<not> fst (sv k n v) \<longrightarrow>
            handle_setval sv uv srv p
              = Inr (NoReply, srv\<lparr>ctx := (ctx srv)(cid \<mapsto> c\<lparr>kconfig := Some (snd (sv k n v))\<rparr>)\<rparr>)) \<and>
         (p ''val'' = None \<longrightarrow>
            handle_setval sv uv srv p
              = Inr (NoReply, srv\<lparr>ctx := (ctx srv)(cid \<mapsto> c\<lparr>kconfig := Some (uv k n)\<rparr>)\<rparr>))"
proof -
  have m: "modified c = Some []"
    using parse_modified [OF assms(1)] assms(2) by simp
  show ?thesis
    using m assms(3-7)
    by (auto simp: handle_setval_def param_def bind_def ctx_set_def ctx_unset_def ctx_get_def
        split: prod.splits)
qed

lemma parse_session0: "parse engine_ok session0 = Inr session1"
  by (simp add: example_session_defs)

theorem setval_accepted_value_raises_witness:
  "parse engine_ok session0 = Inr session1 \<and>
   ctx example_server ''file:///app/build'' = Some session1 \<and>
   ctx_get session1 ''FOO'' = Some foo_symbol \<and>
   fst (bool_set_value (the (kconfig session1)) ''FOO'' ''y'') \<and>
   handle_setval bool_set_value no_unset_value example_server (setval_params (Some ''y''))
     = Inl AttributeError \<and>
   \<not> fst (bool_set_value (the (kconfig session1)) ''FOO'' ''maybe'') \<and>
   \<not> raised (handle_setval bool_set_value no_unset_value example_server (setval_params (Some ''maybe''))) \<and>
   \<not> raised (handle_setval bool_set_value no_unset_value example_server (setval_params None))"
proof -
  obtain k where k: "kconfig session1 = Some k" and s: "syms k ''FOO'' = Some foo_symbol"
    by (simp add: example_session_defs)
  have c: "ctx example_server ''file:///app/build'' = Some session1"
    by (simp add: example_server_def)
  have y: "fst (bool_set_value k ''FOO'' ''y'')" and n: "\<not> fst (bool_set_value k ''FOO'' ''maybe'')"
    by (simp_all add: bool_set_value_def)
  have p: "setval_params v ''ctx'' = Some ''file:///app/build''"
          "setval_params v ''name'' = Some ''FOO''" "setval_params v ''val'' = v" for v
    by (simp_all add: setval_params_def)
  show ?thesis
    using setval_accepted_value_raises
        [where p = "setval_params (Some ''y'')" and v = "''y''" and sv = bool_set_value and uv = no_unset_value,
         OF parse_session0 refl c k s p(1) p(2)]
      setval_accepted_value_raises
        [where p = "setval_params (Some ''maybe'')" and v = "''maybe''" and sv = bool_set_value
           and uv = no_unset_value,
         OF parse_session0 refl c k s p(1) p(2)]
      setval_accepted_value_raises
        [where p = "setval_params None" and sv = bool_set_value and uv = no_unset_value,
         OF parse_session0 refl c k s p(1) p(2)]
      parse_session0 c k s y n p
    by (simp add: raised_def ctx_get_def)
qed

end
